theory Spec2Isabelle
  imports Main
begin

section \<open>JavaScript strings and numbers\<close>

text \<open>
  A JavaScript string is modelled as a \<^typ>\<open>string\<close>: a list of code units below 256
  (ASCII and Latin-1). Numbers that the code uses as counts, years and millisecond
  clocks are integers.
\<close>

definition isDigit :: "char \<Rightarrow> bool" where
  "isDigit c = (c \<in> set ''0123456789'')"

text \<open>The white space and line terminators that \<^verbatim>\<open>String.prototype.trim\<close> and the
  regular expression class \<^verbatim>\<open>\s\<close> recognise, among the code units below 256.\<close>

definition isWhiteSpace :: "char \<Rightarrow> bool" where
  "isWhiteSpace c =
     (c \<in> set [CHR 0x09, CHR 0x0A, CHR 0x0B, CHR 0x0C, CHR 0x0D, CHR 0x20, CHR 0xA0])"

definition trim :: "string \<Rightarrow> string" where
  "trim s = rev (dropWhile isWhiteSpace (rev (dropWhile isWhiteSpace s)))"

text \<open>
  An anchored regular expression \<^verbatim>\<open>^C1{n1}C2{n2}...$\<close> is the list of its character
  classes with their repetition counts; \<open>test\<close> is \<^verbatim>\<open>RegExp.prototype.test\<close> for it.
\<close>

type_synonym pattern = "((char \<Rightarrow> bool) \<times> nat) list"

fun test :: "pattern \<Rightarrow> string \<Rightarrow> bool" where
  "test [] s = (s = [])"
| "test ((cls, n) # ps) s = (n \<le> length s \<and> list_all cls (take n s) \<and> test ps (drop n s))"

definition digitValue :: "char \<Rightarrow> nat" where
  "digitValue c = of_char c - 48"

text \<open>\<^verbatim>\<open>parseInt\<close> on a string of decimal digits (the only strings the code passes to it).\<close>

definition parseInt :: "string \<Rightarrow> nat" where
  "parseInt s = foldl (\<lambda>acc c. 10 * acc + digitValue c) 0 s"

definition digitChar :: "nat \<Rightarrow> char" where
  "digitChar d = char_of (48 + d)"

fun natToString :: "nat \<Rightarrow> string" where
  "natToString n = (if n < 10 then [digitChar n] else natToString (n div 10) @ [digitChar (n mod 10)])"

declare natToString.simps [simp del]

text \<open>\<^verbatim>\<open>Number.prototype.toString\<close> on an integer.\<close>

definition toString :: "int \<Rightarrow> string" where
  "toString i = (if i < 0 then CHR ''-'' # natToString (nat (- i)) else natToString (nat i))"

definition toUpperChar :: "char \<Rightarrow> char" where
  "toUpperChar c =
     (if c \<in> set ''abcdefghijklmnopqrstuvwxyz'' then char_of (of_char c - (32 :: nat)) else c)"

text \<open>\<^verbatim>\<open>String.prototype.toUpperCase\<close> on the ASCII letters; the code only compares its
  result with ASCII literals, which no other code unit maps to.\<close>

definition toUpperCase :: "string \<Rightarrow> string" where
  "toUpperCase s = map toUpperChar s"

section \<open>Validators (utils/validators.ts)\<close>

definition EAN13 :: pattern where
  "EAN13 = [(isDigit, 13)]"

definition EAN8 :: pattern where
  "EAN8 = [(isDigit, 8)]"

definition UPC :: pattern where
  "UPC = [(isDigit, 12)]"

definition ISBN10 :: pattern where
  "ISBN10 = [(isDigit, 9), (\<lambda>c. isDigit c \<or> c = CHR ''X'', 1)]"

definition ISBN13 :: pattern where
  "ISBN13 = [(\<lambda>c. c = CHR ''9'', 1), (\<lambda>c. c = CHR ''7'', 1),
             (\<lambda>c. c = CHR ''8'' \<or> c = CHR ''9'', 1), (isDigit, 10)]"

definition BARCODE_PATTERNS :: "pattern list" where
  "BARCODE_PATTERNS = [EAN13, EAN8, UPC, ISBN10, ISBN13]"

definition isValidBarcode :: "string \<Rightarrow> bool" where
  "isValidBarcode barcode =
     (if barcode = [] then False
      else let cleanBarcode = trim barcode in
        if length cleanBarcode = 0 then False
        else list_ex (\<lambda>pattern. test pattern cleanBarcode) BARCODE_PATTERNS)"

text \<open>\<^verbatim>\<open>generateOpVal\<close> reads the clock: \<open>dateNow\<close> is the value of \<^verbatim>\<open>Date.now()\<close> at the call.\<close>

definition generateOpVal :: "string \<Rightarrow> string \<Rightarrow> int \<Rightarrow> string" where
  "generateOpVal orderId lineItemId dateNow =
     orderId @ ''-'' @ lineItemId @ ''-'' @ toString dateNow"

definition convertGender :: "string option \<Rightarrow> string option" where
  "convertGender gender =
     (case gender of
        None \<Rightarrow> None
      | Some g \<Rightarrow>
          if g = [] then None
          else let normalized = toUpperCase g in
            if normalized = ''M'' \<or> normalized = ''MALE'' \<or> normalized = ''1'' then Some ''M''
            else if normalized = ''F'' \<or> normalized = ''W'' \<or> normalized = ''FEMALE''
                    \<or> normalized = ''2'' then Some ''W''
            else None)"


section \<open>The Date built-in\<close>

text \<open>
  \<^verbatim>\<open>new Date(string)\<close> parses the date-only forms of the ECMAScript date-time format
  (\<^verbatim>\<open>YYYY\<close>, \<^verbatim>\<open>YYYY-MM\<close>, \<^verbatim>\<open>YYYY-MM-DD\<close>) as midnight UTC of a calendar day; what it
  makes of any other string is left to the engine. The runtime therefore carries the
  engine's answer for those strings (\<open>legacyDateYear\<close>: the local full year, or \<open>None\<close> for
  an Invalid Date), the offset of local time from UTC in minutes, and the current year.
\<close>

record runtime =
  timezoneOffset :: int
  legacyDateYear :: "string \<Rightarrow> int option"
  currentYear :: int

definition isLeapYear :: "nat \<Rightarrow> bool" where
  "isLeapYear y = (y mod 4 = 0 \<and> (y mod 100 \<noteq> 0 \<or> y mod 400 = 0))"

definition daysInMonth :: "nat \<Rightarrow> nat \<Rightarrow> nat" where
  "daysInMonth y m =
     (if m = 2 then (if isLeapYear y then 29 else 28)
      else if m = 4 \<or> m = 6 \<or> m = 9 \<or> m = 11 then 30 else 31)"

definition isDash :: "char \<Rightarrow> bool" where
  "isDash c = (c = CHR ''-'')"

definition isoDateOnly :: "string \<Rightarrow> (nat \<times> nat \<times> nat) option" where
  "isoDateOnly s =
     (if test [(isDigit, 4)] s then Some (parseInt s, 1, 1)
      else if test [(isDigit, 4), (isDash, 1), (isDigit, 2)] s then
        (let y = parseInt (take 4 s); m = parseInt (drop 5 s)
         in if 1 \<le> m \<and> m \<le> 12 then Some (y, m, 1) else None)
      else if test [(isDigit, 4), (isDash, 1), (isDigit, 2), (isDash, 1), (isDigit, 2)] s then
        (let y = parseInt (take 4 s); m = parseInt (take 2 (drop 5 s)); d = parseInt (drop 8 s)
         in if 1 \<le> m \<and> m \<le> 12 \<and> 1 \<le> d \<and> d \<le> daysInMonth y m then Some (y, m, d) else None)
      else None)"

text \<open>
  \<^verbatim>\<open>new Date(s).getFullYear()\<close>, \<open>None\<close> when \<^verbatim>\<open>isNaN(date.getTime())\<close>. Midnight UTC
  falls in the previous local year only on 1 January, west of Greenwich.
\<close>

definition dateFullYear :: "runtime \<Rightarrow> string \<Rightarrow> int option" where
  "dateFullYear rt s =
     (case isoDateOnly s of
        Some (y, m, d) \<Rightarrow>
          Some (if timezoneOffset rt < 0 \<and> m = 1 \<and> d = 1 then int y - 1 else int y)
      | None \<Rightarrow> legacyDateYear rt s)"

section \<open>Birth year extraction\<close>

text \<open>\<^verbatim>\<open>birthDate.match(/[0-9]{4}/)\<close>: the first four consecutive digits.\<close>

fun matchFourDigits :: "string \<Rightarrow> string option" where
  "matchFourDigits [] = None"
| "matchFourDigits (c # cs) =
     (if 4 \<le> length (c # cs) \<and> list_all isDigit (take 4 (c # cs)) then Some (take 4 (c # cs))
      else matchFourDigits cs)"

definition extractBirthYear :: "runtime \<Rightarrow> string option \<Rightarrow> string option" where
  "extractBirthYear rt birthDate =
     (case birthDate of
        None \<Rightarrow> None
      | Some b \<Rightarrow>
          if b = [] then None
          else (case dateFullYear rt b of
                  Some fullYear \<Rightarrow> Some (toString fullYear)
                | None \<Rightarrow>
                    (case matchFourDigits b of
                       Some yearMatch \<Rightarrow>
                         (let year = int (parseInt yearMatch)
                          in if year \<ge> 1900 \<and> year \<le> currentYear rt then Some (toString year)
                             else None)
                     | None \<Rightarrow> None)))"

text \<open>Matching a literal prefix under the \<^verbatim>\<open>i\<close> flag.\<close>

fun stripPrefixCI :: "string \<Rightarrow> string \<Rightarrow> string option" where
  "stripPrefixCI [] s = Some s"
| "stripPrefixCI (p # ps) [] = None"
| "stripPrefixCI (p # ps) (c # cs) =
     (if toUpperChar c = toUpperChar p then stripPrefixCI ps cs else None)"

text \<open>
  \<^verbatim>\<open>birth[_-]?WORD[:\s]*\<close> matched at the start of \<open>s\<close>: what follows the match. Neither
  optional part can give a character back, as \<open>WORD\<close> starts with a letter and the
  continuation with a digit, a dash or a slash.
\<close>

definition birthKeyAt :: "string \<Rightarrow> string \<Rightarrow> string option" where
  "birthKeyAt word s =
     (case stripPrefixCI ''birth'' s of
        None \<Rightarrow> None
      | Some r \<Rightarrow>
          (case stripPrefixCI word
                  (case r of [] \<Rightarrow> r | c # r' \<Rightarrow> if c = CHR ''_'' \<or> c = CHR ''-'' then r' else r) of
             None \<Rightarrow> None
           | Some r2 \<Rightarrow> Some (dropWhile (\<lambda>c. c = CHR '':'' \<or> isWhiteSpace c) r2)))"

text \<open>Group 1 of the first match of \<^verbatim>\<open>/birth[_-]?year[:\s]*([0-9]{4})/i\<close>.\<close>

fun matchBirthYear :: "string \<Rightarrow> string option" where
  "matchBirthYear [] = None"
| "matchBirthYear (c # cs) =
     (case birthKeyAt ''year'' (c # cs) of
        None \<Rightarrow> matchBirthYear cs
      | Some r \<Rightarrow>
          if 4 \<le> length r \<and> list_all isDigit (take 4 r) then Some (take 4 r)
          else matchBirthYear cs)"

text \<open>Group 1 of the first match of \<^verbatim>\<open>/birth[_-]?date[:\s]*([0-9\-\/]+)/i\<close>.\<close>

fun matchBirthDate :: "string \<Rightarrow> string option" where
  "matchBirthDate [] = None"
| "matchBirthDate (c # cs) =
     (case birthKeyAt ''date'' (c # cs) of
        None \<Rightarrow> matchBirthDate cs
      | Some r \<Rightarrow>
          (let g = takeWhile (\<lambda>c. isDigit c \<or> c = CHR ''-'' \<or> c = CHR ''/'') r
           in if g \<noteq> [] then Some g else matchBirthDate cs))"

record ShopifyCustomer =
  customerTags :: "string option"
  customerNote :: "string option"

definition truthy :: "string option \<Rightarrow> string" where
  "truthy v = (case v of None \<Rightarrow> [] | Some s \<Rightarrow> s)"

definition extractBirthYearFromCustomer :: "runtime \<Rightarrow> ShopifyCustomer \<Rightarrow> string option" where
  "extractBirthYearFromCustomer rt customer =
     (case (if truthy (customerTags customer) \<noteq> [] then matchBirthYear (truthy (customerTags customer)) else None) of
        Some year \<Rightarrow> Some year
      | None \<Rightarrow>
          if truthy (customerNote customer) \<noteq> [] then
            (case matchBirthYear (truthy (customerNote customer)) of
               Some year \<Rightarrow> Some year
             | None \<Rightarrow>
                 (case matchBirthDate (truthy (customerNote customer)) of
                    Some dateMatch \<Rightarrow> extractBirthYear rt (Some dateMatch)
                  | None \<Rightarrow> None))
          else None)"

section \<open>Data model of the reporting service (models/sales.model.ts, config/hanteo.config.ts)\<close>

record CustomerInfo =
  customerId :: string
  gender :: "string option"
  birthYear :: "string option"

record ShippingInfo =
  countryCode :: string
  city :: "string option"

text \<open>The fields of a transaction that the submitter reads; \<open>transactionTime\<close> is the
  \<^verbatim>\<open>Date\<close> in milliseconds since the epoch.\<close>

record SalesTransaction =
  orderId :: string
  orderName :: string
  lineItemId :: string
  barcode :: string
  albumName :: string
  quantity :: int
  customerInfo :: "CustomerInfo option"
  shippingInfo :: "ShippingInfo option"
  transactionTime :: int

record HanteoSalesData =
  familyCode :: string
  branchCode :: string
  dataBarcode :: string
  dataAlbumName :: string
  salesVolume :: int
  nation :: "string option"
  addrTop :: "string option"
  swsSex :: "string option"
  swsBirth :: "string option"
  spCode :: "string option"
  realTime :: int
  opVal :: string

text \<open>\<open>failData\<close> is the object's entries in the order \<^verbatim>\<open>Object.entries\<close> gives them; an
  object that is present is truthy even when it has no entry.\<close>

record HanteoResultData =
  requestCount :: int
  successCount :: int
  failCount :: int
  failData :: "(string \<times> string) list option"

record HanteoSalesResponse =
  code :: int
  message :: string
  resultData :: "HanteoResultData option"

record HanteoTokenData =
  access_token :: string
  token_type :: string
  expires_in :: int

record HanteoTokenResponse =
  tokenCode :: int
  tokenMessage :: string
  tokenResultData :: "HanteoTokenData option"

record HanteoToken =
  accessToken :: string
  tokenType :: string
  expiresAt :: int

record HanteoConfig =
  configFamilyCode :: string
  configBranchCode :: string

definition maxBatchSize :: nat where
  "maxBatchSize = 100"

definition retryAttempts :: nat where
  "retryAttempts = 3"

definition retryDelay :: nat where
  "retryDelay = 1000"

definition SUCCESS :: int where
  "SUCCESS = 100"

definition PARTIAL_SUCCESS :: int where
  "PARTIAL_SUCCESS = 101"

definition INVALID_DATA :: int where
  "INVALID_DATA = 604"

definition INVALID_TOKEN :: int where
  "INVALID_TOKEN = 821"

definition TOKEN_EXPIRED :: int where
  "TOKEN_EXPIRED = 822"

section \<open>Errors (utils/error-handler.ts)\<close>

text \<open>An error of the HTTP client: its message and, when the server answered, the
  response's status and the \<open>code\<close> of its body if it has one.\<close>

datatype AxiosError = AxiosError (axiosMessage: string) (axiosResponse: "(nat \<times> int option) option")

datatype error =
    Axios AxiosError
  | TypeError string
  | AuthenticationError string
  | HanteoError (hanteoMessage: string) (hanteoCode: "int option") (details: details)
      (failedData: "(string \<times> string) list option")
and details =
    NoDetails
  | ResponseDetails HanteoSalesResponse
  | ErrorDetails error

text \<open>\<^verbatim>\<open>error.message\<close>; the constructor of \<^verbatim>\<open>HanteoError\<close> prefixes its message.\<close>

fun errorMessage :: "error \<Rightarrow> string" where
  "errorMessage (Axios e) = axiosMessage e"
| "errorMessage (TypeError m) = m"
| "errorMessage (AuthenticationError m) = m"
| "errorMessage (HanteoError m c d f) = ''Hanteo Error: '' @ m"

section \<open>The world of the reporting service: token, clock, server, observed effects\<close>

text \<open>
  The effects of a run, in the order they happen: a POST to the token endpoint, a POST of
  records to the sales endpoint with the bearer token it carries, the wait of
  \<^verbatim>\<open>retryWithBackoff\<close>, the start of a batch, the wait between batches, and the failure
  of a batch.
\<close>

datatype event =
    PostToken
  | PostSales string "HanteoSalesData list"
  | Backoff nat
  | ProcessingBatch "SalesTransaction list"
  | BatchDelay nat
  | BatchFailed string

text \<open>
  The server is the list of its answers to come, one list per endpoint, each with the
  time the request takes; a request made when the list is empty gets no response (a
  transport failure).
\<close>

record world =
  token :: "HanteoToken option"
  dateNow :: int
  tokenEndpoint :: "(nat \<times> (AxiosError + HanteoTokenResponse)) list"
  salesEndpoint :: "(nat \<times> (AxiosError + HanteoSalesResponse)) list"
  trace :: "event list"

definition networkError :: AxiosError where
  "networkError = AxiosError ''Network Error'' None"

definition observe :: "event \<Rightarrow> world \<Rightarrow> world" where
  "observe e w = w\<lparr>trace := trace w @ [e]\<rparr>"

text \<open>\<^verbatim>\<open>await new Promise(resolve => setTimeout(resolve, ms))\<close>\<close>

definition sleep :: "(nat \<Rightarrow> event) \<Rightarrow> nat \<Rightarrow> world \<Rightarrow> world" where
  "sleep site ms w = w\<lparr>dateNow := dateNow w + int ms, trace := trace w @ [site ms]\<rparr>"

definition postToken :: "world \<Rightarrow> (error + HanteoTokenResponse) \<times> world" where
  "postToken w =
     (case tokenEndpoint w of
        [] \<Rightarrow> (Inl (Axios networkError), observe PostToken w)
      | (latency, reply) # rest \<Rightarrow>
          ((case reply of Inl e \<Rightarrow> Inl (Axios e) | Inr data \<Rightarrow> Inr data),
           observe PostToken (w\<lparr>dateNow := dateNow w + int latency, tokenEndpoint := rest\<rparr>)))"

definition postSales ::
  "HanteoSalesData list \<Rightarrow> world \<Rightarrow> (error + HanteoSalesResponse) \<times> world" where
  "postSales salesData w =
     (case token w of
        None \<Rightarrow> (Inl (TypeError ''Cannot read properties of null''), w)
      | Some t \<Rightarrow>
          (case salesEndpoint w of
             [] \<Rightarrow> (Inl (Axios networkError), observe (PostSales (accessToken t) salesData) w)
           | (latency, reply) # rest \<Rightarrow>
               ((case reply of Inl e \<Rightarrow> Inl (Axios e) | Inr data \<Rightarrow> Inr data),
                observe (PostSales (accessToken t) salesData)
                  (w\<lparr>dateNow := dateNow w + int latency, salesEndpoint := rest\<rparr>))))"

section \<open>Retry with backoff (utils/error-handler.ts)\<close>

record RetryOptions =
  maxRetries :: nat
  initialDelay :: nat
  maxDelay :: nat
  factor :: nat

text \<open>
  The loop of \<^verbatim>\<open>retryWithBackoff\<close> from \<open>attempt\<close> on. The loop runs while
  \<open>attempt \<le> maxRetries\<close> and throws the last error when \<open>attempt = maxRetries\<close>, so
  it never leaves through its condition; on the attempts it reaches, that test is the
  \<open>attempt \<ge> maxRetries\<close> written here.
\<close>

function attemptLoop ::
  "RetryOptions \<Rightarrow> (world \<Rightarrow> (error + 'a) \<times> world) \<Rightarrow> nat \<Rightarrow> world \<Rightarrow> (error + 'a) \<times> world" where
  "attemptLoop opts fn attempt w =
     (case fn w of
        (Inr v, w1) \<Rightarrow> (Inr v, w1)
      | (Inl lastError, w1) \<Rightarrow>
          if attempt \<ge> maxRetries opts then (Inl lastError, w1)
          else attemptLoop opts fn (attempt + 1)
                 (sleep Backoff (min (initialDelay opts * factor opts ^ attempt) (maxDelay opts)) w1))"
  by pat_completeness auto
termination
  by (relation "measure (\<lambda>(opts, fn, attempt, w). maxRetries opts - attempt)") auto

definition retryWithBackoff ::
  "RetryOptions \<Rightarrow> (world \<Rightarrow> (error + 'a) \<times> world) \<Rightarrow> world \<Rightarrow> (error + 'a) \<times> world" where
  "retryWithBackoff opts fn w = attemptLoop opts fn 0 w"

section \<open>The reporting service (services/hanteo.service.ts)\<close>

definition authenticationFailed :: "error \<Rightarrow> error" where
  "authenticationFailed cause = HanteoError ''Authentication failed'' None (ErrorDetails cause) None"

definition authenticate :: "world \<Rightarrow> (error + unit) \<times> world" where
  "authenticate w =
     (case postToken w of
        (Inl e, w1) \<Rightarrow> (Inl (authenticationFailed e), w1)
      | (Inr response, w1) \<Rightarrow>
          (case tokenResultData response of
             None \<Rightarrow>
               (Inl (authenticationFailed (AuthenticationError (''Authentication failed: '' @
                  (if tokenMessage response = [] then ''Unknown error'' else tokenMessage response)))),
                w1)
           | Some rd \<Rightarrow>
               if tokenCode response \<noteq> SUCCESS then
                 (Inl (authenticationFailed (AuthenticationError (''Authentication failed: '' @
                    (if tokenMessage response = [] then ''Unknown error'' else tokenMessage response)))),
                  w1)
               else
                 (Inr (),
                  w1\<lparr>token := Some \<lparr>accessToken = access_token rd, tokenType = token_type rd,
                                     expiresAt = dateNow w1 + expires_in rd * 1000\<rparr>\<rparr>)))"

definition expiryBuffer :: int where
  "expiryBuffer = 5 * 60 * 1000"

definition isTokenValid :: "world \<Rightarrow> bool" where
  "isTokenValid w =
     (case token w of None \<Rightarrow> False | Some t \<Rightarrow> dateNow w + expiryBuffer < expiresAt t)"

definition ensureAuthenticated :: "world \<Rightarrow> (error + unit) \<times> world" where
  "ensureAuthenticated w = (if \<not> isTokenValid w then authenticate w else (Inr (), w))"

definition convertToHanteoFormat :: "HanteoConfig \<Rightarrow> int \<Rightarrow> SalesTransaction \<Rightarrow> HanteoSalesData" where
  "convertToHanteoFormat cfg now transaction =
     \<lparr>familyCode = configFamilyCode cfg,
      branchCode = configBranchCode cfg,
      dataBarcode = barcode transaction,
      dataAlbumName = albumName transaction,
      salesVolume = quantity transaction,
      nation = map_option countryCode (shippingInfo transaction),
      addrTop = Option.bind (shippingInfo transaction) city,
      swsSex = convertGender (Option.bind (customerInfo transaction) gender),
      swsBirth = Option.bind (customerInfo transaction) birthYear,
      spCode = map_option customerId (customerInfo transaction),
      realTime = transactionTime transaction div 1000,
      opVal = generateOpVal (orderId transaction) (lineItemId transaction) now\<rparr>"

definition emptyResponse :: HanteoSalesResponse where
  "emptyResponse =
     \<lparr>code = SUCCESS, message = ''No data to send'',
      resultData = Some \<lparr>requestCount = 0, successCount = 0, failCount = 0, failData = None\<rparr>\<rparr>"

definition responseFailData :: "HanteoSalesResponse \<Rightarrow> (string \<times> string) list option" where
  "responseFailData result = Option.bind (resultData result) failData"

text \<open>The \<^verbatim>\<open>try\<close> block of \<^verbatim>\<open>sendSalesData\<close>: the POST under \<^verbatim>\<open>retryWithBackoff\<close> and the
  inspection of the response's code.\<close>

definition salesRetryOptions :: RetryOptions where
  "salesRetryOptions =
     \<lparr>maxRetries = retryAttempts, initialDelay = retryDelay, maxDelay = 30000, factor = 2\<rparr>"

definition submit :: "HanteoSalesData list \<Rightarrow> world \<Rightarrow> (error + HanteoSalesResponse) \<times> world" where
  "submit salesData w =
     (case retryWithBackoff salesRetryOptions (postSales salesData) w of
        (Inl e, w1) \<Rightarrow> (Inl e, w1)
      | (Inr result, w1) \<Rightarrow>
          if code result = PARTIAL_SUCCESS \<and> responseFailData result \<noteq> None then
            (Inl (HanteoError ''Partial success - some records failed'' (Some (code result))
                    (ResponseDetails result) (responseFailData result)), w1)
          else if code result \<noteq> SUCCESS \<and> code result \<noteq> PARTIAL_SUCCESS then
            (Inl (HanteoError
                    (if message result = [] then ''Sales data submission failed'' else message result)
                    (Some (code result)) (ResponseDetails result) None), w1)
          else (Inr result, w1))"

text \<open>The condition of the \<^verbatim>\<open>catch\<close> block: \<^verbatim>\<open>error.response?.status === 401\<close> or the
  body's code is that of an invalid or expired token. Only an error of the HTTP client
  has a \<^verbatim>\<open>response\<close>.\<close>

fun tokenRejected :: "error \<Rightarrow> bool" where
  "tokenRejected (Axios (AxiosError m (Some (status, dataCode)))) =
     (status = 401 \<or> dataCode = Some INVALID_TOKEN \<or> dataCode = Some TOKEN_EXPIRED)"
| "tokenRejected _ = False"

text \<open>
  \<^verbatim>\<open>sendSalesData\<close> calls itself after a token rejection. Every such call has used up an
  answer of the sales endpoint, which is why the recursion ends on a server that has
  finitely many answers to give.
\<close>

lemma postToken_salesEndpoint: "postToken w = (r, w') \<Longrightarrow> salesEndpoint w' = salesEndpoint w"
  by (auto simp: postToken_def observe_def split: list.splits prod.splits)

lemma authenticate_salesEndpoint: "authenticate w = (r, w') \<Longrightarrow> salesEndpoint w' = salesEndpoint w"
  by (auto simp: authenticate_def split: prod.splits sum.splits option.splits if_splits
      dest: postToken_salesEndpoint)

lemma ensureAuthenticated_salesEndpoint:
  "ensureAuthenticated w = (r, w') \<Longrightarrow> salesEndpoint w' = salesEndpoint w"
  by (auto simp: ensureAuthenticated_def split: if_splits dest: authenticate_salesEndpoint)

lemma postSales_length:
  "postSales d w = (r, w') \<Longrightarrow> length (salesEndpoint w') \<le> length (salesEndpoint w)"
  by (auto simp: postSales_def observe_def split: option.splits list.splits prod.splits)

lemma postSales_rejected:
  "postSales d w = (Inl e, w') \<Longrightarrow> tokenRejected e \<Longrightarrow>
   length (salesEndpoint w') < length (salesEndpoint w)"
  by (auto simp: postSales_def observe_def networkError_def
      split: option.splits list.splits prod.splits sum.splits)

lemma attemptLoop_length:
  assumes fn: "\<And>w r w'. fn w = (r, w') \<Longrightarrow>
      length (salesEndpoint w') \<le> length (salesEndpoint w)
      \<and> (\<forall>e. r = Inl e \<and> tokenRejected e \<longrightarrow> length (salesEndpoint w') < length (salesEndpoint w))"
  shows "attemptLoop opts fn attempt w = (r, w') \<Longrightarrow>
   length (salesEndpoint w') \<le> length (salesEndpoint w)
   \<and> (\<forall>e. r = Inl e \<and> tokenRejected e \<longrightarrow> length (salesEndpoint w') < length (salesEndpoint w))"
  using fn
proof (induction opts fn attempt w rule: attemptLoop.induct)
  case (1 opts fn attempt w)
  note run = "1.prems"(1) and fn = "1.prems"(2)
  obtain r1 w1 where p: "fn w = (r1, w1)" by (cases "fn w")
  note len = fn[OF p]
  show ?case
  proof (cases r1)
    case (Inr v)
    with p run len show ?thesis by (auto simp: attemptLoop.simps[of opts fn attempt w])
  next
    case (Inl e1)
    show ?thesis
    proof (cases "attempt \<ge> maxRetries opts")
      case True
      with p Inl run have "r = Inl e1" "w' = w1"
        by (simp_all add: attemptLoop.simps[of opts fn attempt w])
      with p Inl len show ?thesis by auto
    next
      case False
      let ?w2 = "sleep Backoff (min (initialDelay opts * factor opts ^ attempt) (maxDelay opts)) w1"
      from p Inl False run have rec: "attemptLoop opts fn (attempt + 1) ?w2 = (r, w')"
        by (simp add: attemptLoop.simps[of opts fn attempt w])
      have s: "salesEndpoint ?w2 = salesEndpoint w1" by (simp add: sleep_def)
      from "1.IH"[OF p[symmetric] Inl False rec fn] s len
      show ?thesis by auto
    qed
  qed
qed

lemma postSales_lengths:
  "postSales d w = (r, w') \<Longrightarrow>
      length (salesEndpoint w') \<le> length (salesEndpoint w)
      \<and> (\<forall>e. r = Inl e \<and> tokenRejected e \<longrightarrow> length (salesEndpoint w') < length (salesEndpoint w))"
  using postSales_length postSales_rejected by blast

lemma submit_rejected:
  assumes "submit d w = (Inl e, w')" and "tokenRejected e"
  shows "length (salesEndpoint w') < length (salesEndpoint w)"
proof -
  let ?opts = salesRetryOptions
  obtain r1 w1 where a: "attemptLoop ?opts (postSales d) 0 w = (r1, w1)"
    by (cases "attemptLoop ?opts (postSales d) 0 w")
  show ?thesis
  proof (cases r1)
    case (Inl e1)
    with a assms have "e1 = e" "w1 = w'" by (simp_all add: submit_def retryWithBackoff_def)
    with a Inl assms(2) attemptLoop_length[OF postSales_lengths a] show ?thesis by simp
  next
    case (Inr result)
    with a assms(1) have "\<not> tokenRejected e"
      by (auto simp: submit_def retryWithBackoff_def split: if_splits)
    with assms(2) show ?thesis by simp
  qed
qed

function sendSalesData ::
  "HanteoConfig \<Rightarrow> SalesTransaction list \<Rightarrow> world \<Rightarrow> (error + HanteoSalesResponse) \<times> world" where
  "sendSalesData cfg transactions w =
     (case ensureAuthenticated w of
        (Inl e, w1) \<Rightarrow> (Inl e, w1)
      | (Inr u, w1) \<Rightarrow>
          if length transactions = 0 then (Inr emptyResponse, w1)
          else
            let salesData = map (convertToHanteoFormat cfg (dateNow w1)) transactions in
            if length salesData > maxBatchSize then
              (Inl (HanteoError (''Batch size '' @ toString (int (length salesData))
                      @ '' exceeds maximum '' @ toString (int maxBatchSize))
                      (Some INVALID_DATA) NoDetails None), w1)
            else
              (case submit salesData w1 of
                 (Inr result, w2) \<Rightarrow> (Inr result, w2)
               | (Inl error, w2) \<Rightarrow>
                   if tokenRejected error then
                     (case authenticate (w2\<lparr>token := None\<rparr>) of
                        (Inl e, w3) \<Rightarrow> (Inl e, w3)
                      | (Inr u, w3) \<Rightarrow> sendSalesData cfg transactions w3)
                   else (Inl error, w2)))"
  by pat_completeness auto
termination
  apply (relation "measure (\<lambda>(cfg, transactions, w). length (salesEndpoint w))")
   apply simp
  apply simp
  subgoal premises p for cfg transactions w x y xa xb ya a xc yb
    using ensureAuthenticated_salesEndpoint[OF p(1)[symmetric]]
      submit_rejected[OF p(6)[symmetric] p(8)]
      authenticate_salesEndpoint[OF p(9)[symmetric]]
    by simp
  done


subsection \<open>Submission in batches\<close>

text \<open>The batch size and the delay between batches are counts: natural numbers.\<close>

record BatchResults =
  totalSent :: int
  totalSuccess :: int
  totalFailed :: int
  batchResults :: "HanteoSalesResponse list"
  failedTransactions :: "(SalesTransaction \<times> string) list"

record BatchOptions =
  batchSizeOption :: "nat option"
  delayBetweenBatchesOption :: "nat option"

definition emptyResults :: BatchResults where
  "emptyResults =
     \<lparr>totalSent = 0, totalSuccess = 0, totalFailed = 0, batchResults = [], failedTransactions = []\<rparr>"

text \<open>\<^verbatim>\<open>Array.prototype.slice(start, end)\<close> for indices that are not negative.\<close>

definition slice :: "nat \<Rightarrow> nat \<Rightarrow> 'a list \<Rightarrow> 'a list" where
  "slice start end xs = take (end - start) (drop start xs)"

text \<open>The loop over \<^verbatim>\<open>Object.entries(failData)\<close>: each entry looks for the first
  transaction of the batch whose freshly generated operation value equals the key.\<close>

definition trackFailed ::
  "int \<Rightarrow> SalesTransaction list \<Rightarrow> (string \<times> string) list \<Rightarrow> (SalesTransaction \<times> string) list" where
  "trackFailed now batch entries =
     List.map_filter
       (\<lambda>(key, errorCode).
          map_option (\<lambda>failedTx. (failedTx, errorCode))
            (find (\<lambda>tx. generateOpVal (orderId tx) (lineItemId tx) now = key) batch))
       entries"

text \<open>What the \<^verbatim>\<open>try\<close> block of the batch loop does with a response.\<close>

definition recordResponse ::
  "int \<Rightarrow> SalesTransaction list \<Rightarrow> HanteoSalesResponse \<Rightarrow> BatchResults \<Rightarrow> BatchResults" where
  "recordResponse now batch response results =
     (let results1 = results\<lparr>batchResults := batchResults results @ [response]\<rparr>
      in case resultData response of
           None \<Rightarrow> results1
         | Some rd \<Rightarrow>
             results1
               \<lparr>totalSent := totalSent results1 + requestCount rd,
                totalSuccess := totalSuccess results1 + successCount rd,
                totalFailed := totalFailed results1 + failCount rd,
                failedTransactions := failedTransactions results1 @
                  (case failData rd of None \<Rightarrow> [] | Some entries \<Rightarrow> trackFailed now batch entries)\<rparr>)"

text \<open>What the \<^verbatim>\<open>catch\<close> block of the batch loop does with an error.\<close>

definition recordFailure :: "SalesTransaction list \<Rightarrow> error \<Rightarrow> BatchResults \<Rightarrow> BatchResults" where
  "recordFailure batch error results =
     results
       \<lparr>failedTransactions := failedTransactions results @ map (\<lambda>tx. (tx, errorMessage error)) batch,
        totalFailed := totalFailed results + int (length batch)\<rparr>"

text \<open>One pass through the body of the \<^verbatim>\<open>for\<close> loop, at index \<open>i\<close>.\<close>

definition processBatch ::
  "HanteoConfig \<Rightarrow> SalesTransaction list \<Rightarrow> nat \<Rightarrow> nat \<Rightarrow> nat \<Rightarrow> BatchResults \<Rightarrow> world
   \<Rightarrow> BatchResults \<times> world" where
  "processBatch cfg transactions batchSize delayBetweenBatches i results w =
     (let batch = slice i (i + batchSize) transactions
      in case sendSalesData cfg batch (observe (ProcessingBatch batch) w) of
           (Inr response, w1) \<Rightarrow>
             (recordResponse (dateNow w1) batch response results,
              if i + batchSize < length transactions then sleep BatchDelay delayBetweenBatches w1
              else w1)
         | (Inl error, w1) \<Rightarrow>
             (recordFailure batch error results, observe (BatchFailed (errorMessage error)) w1))"

text \<open>The \<^verbatim>\<open>for\<close> loop. With a batch size of zero the index never moves: the loop may
  run forever, and not returning is the value \<open>None\<close>.\<close>

partial_function (option) batchLoop ::
  "HanteoConfig \<Rightarrow> SalesTransaction list \<Rightarrow> nat \<Rightarrow> nat \<Rightarrow> nat \<Rightarrow> BatchResults \<Rightarrow> world
   \<Rightarrow> (BatchResults \<times> world) option" where
  "batchLoop cfg transactions batchSize delayBetweenBatches i results w =
     (if i < length transactions then
        (case processBatch cfg transactions batchSize delayBetweenBatches i results w of
           (results1, w1) \<Rightarrow>
             batchLoop cfg transactions batchSize delayBetweenBatches (i + batchSize) results1 w1)
      else Some (results, w))"

definition sendSalesDataInBatches ::
  "HanteoConfig \<Rightarrow> SalesTransaction list \<Rightarrow> BatchOptions \<Rightarrow> world
   \<Rightarrow> (BatchResults \<times> world) option" where
  "sendSalesDataInBatches cfg transactions options w =
     (let batchSize = (case batchSizeOption options of None \<Rightarrow> maxBatchSize | Some n \<Rightarrow> n);
          delayBetweenBatches =
            (case delayBetweenBatchesOption options of None \<Rightarrow> 1000 | Some d \<Rightarrow> d)
      in batchLoop cfg transactions batchSize delayBetweenBatches 0 emptyResults w)"

section \<open>Chunked submission as the specification describes it\<close>

text \<open>Splitting a list into consecutive chunks of a fixed size, the last one shorter when
  the size does not divide the length.\<close>

function chunk :: "nat \<Rightarrow> 'a list \<Rightarrow> 'a list list" where
  "chunk c xs = (if c = 0 \<or> xs = [] then [] else take c xs # chunk c (drop c xs))"
  by pat_completeness auto
termination
  by (relation "measure (\<lambda>(c, xs). length xs)") auto

declare chunk.simps [simp del]

text \<open>
  The chunks submitted one after the other. A chunk whose submission returns is recorded
  and, when another chunk follows, the delay is observed; a chunk whose submission throws
  is recorded as failed and the next chunk follows at once.
\<close>

fun submitChunks ::
  "HanteoConfig \<Rightarrow> nat \<Rightarrow> SalesTransaction list list \<Rightarrow> BatchResults \<Rightarrow> world
   \<Rightarrow> BatchResults \<times> world" where
  "submitChunks cfg delay [] results w = (results, w)"
| "submitChunks cfg delay (batch # rest) results w =
     (case sendSalesData cfg batch (observe (ProcessingBatch batch) w) of
        (Inr response, w1) \<Rightarrow>
          submitChunks cfg delay rest (recordResponse (dateNow w1) batch response results)
            (if rest \<noteq> [] then sleep BatchDelay delay w1 else w1)
      | (Inl error, w1) \<Rightarrow>
          submitChunks cfg delay rest (recordFailure batch error results)
            (observe (BatchFailed (errorMessage error)) w1))"

text \<open>
  The outcome of each chunk of such a run, in order: the chunk, what its submission
  returned or threw in the world the run had reached, and the clock when it came back.
\<close>

type_synonym chunkOutcome = "SalesTransaction list \<times> (error + HanteoSalesResponse) \<times> int"

fun chunkOutcomes ::
  "HanteoConfig \<Rightarrow> nat \<Rightarrow> SalesTransaction list list \<Rightarrow> world \<Rightarrow> chunkOutcome list" where
  "chunkOutcomes cfg delay [] w = []"
| "chunkOutcomes cfg delay (batch # rest) w =
     (case sendSalesData cfg batch (observe (ProcessingBatch batch) w) of
        (Inr response, w1) \<Rightarrow>
          (batch, Inr response, dateNow w1)
            # chunkOutcomes cfg delay rest (if rest \<noteq> [] then sleep BatchDelay delay w1 else w1)
      | (Inl error, w1) \<Rightarrow>
          (batch, Inl error, dateNow w1)
            # chunkOutcomes cfg delay rest (observe (BatchFailed (errorMessage error)) w1))"

text \<open>
  What one chunk is to contribute to the aggregate result. A chunk whose submission threw:
  each of its transactions with the message of the error, its size as failures, nothing
  sent, nothing succeeded, no response. A chunk whose submission returned: the response,
  its counts, and the failed transactions tracked from its failure map.
\<close>

fun failedOf :: "chunkOutcome \<Rightarrow> (SalesTransaction \<times> string) list" where
  "failedOf (batch, Inl error, now) = map (\<lambda>tx. (tx, errorMessage error)) batch"
| "failedOf (batch, Inr response, now) =
     (case resultData response of
        None \<Rightarrow> []
      | Some rd \<Rightarrow> (case failData rd of None \<Rightarrow> [] | Some entries \<Rightarrow> trackFailed now batch entries))"

fun failedCountOf :: "chunkOutcome \<Rightarrow> int" where
  "failedCountOf (batch, Inl error, now) = int (length batch)"
| "failedCountOf (batch, Inr response, now) =
     (case resultData response of None \<Rightarrow> 0 | Some rd \<Rightarrow> failCount rd)"

fun sentCountOf :: "chunkOutcome \<Rightarrow> int" where
  "sentCountOf (batch, Inl error, now) = 0"
| "sentCountOf (batch, Inr response, now) =
     (case resultData response of None \<Rightarrow> 0 | Some rd \<Rightarrow> requestCount rd)"

fun successCountOf :: "chunkOutcome \<Rightarrow> int" where
  "successCountOf (batch, Inl error, now) = 0"
| "successCountOf (batch, Inr response, now) =
     (case resultData response of None \<Rightarrow> 0 | Some rd \<Rightarrow> successCount rd)"

fun responseOf :: "chunkOutcome \<Rightarrow> HanteoSalesResponse list" where
  "responseOf (batch, Inl error, now) = []"
| "responseOf (batch, Inr response, now) = [response]"

section \<open>Views of a trace\<close>

text \<open>The batches a trace starts, in order.\<close>

fun batchesStarted :: "event list \<Rightarrow> SalesTransaction list list" where
  "batchesStarted [] = []"
| "batchesStarted (ProcessingBatch batch # es) = batch # batchesStarted es"
| "batchesStarted (e # es) = batchesStarted es"

text \<open>An event without the records or transactions it carries.\<close>

fun outline :: "event \<Rightarrow> event" where
  "outline (PostSales bearer salesData) = PostSales bearer []"
| "outline (ProcessingBatch batch) = ProcessingBatch []"
| "outline e = e"

text \<open>The events of the batch loop itself.\<close>

fun isBatchEvent :: "event \<Rightarrow> bool" where
  "isBatchEvent (ProcessingBatch batch) = True"
| "isBatchEvent (BatchDelay ms) = True"
| "isBatchEvent (BatchFailed m) = True"
| "isBatchEvent e = False"

text \<open>The operation values of the records a trace posts, request by request.\<close>

fun postedOpVals :: "event list \<Rightarrow> string list list" where
  "postedOpVals [] = []"
| "postedOpVals (PostSales bearer salesData # es) = map opVal salesData # postedOpVals es"
| "postedOpVals (e # es) = postedOpVals es"

section \<open>The catalog cache (services/sync.service.ts)\<close>

record AlbumProduct =
  productId :: nat
  variantId :: nat
  title :: string
  variantTitle :: string
  vendor :: string
  sku :: string
  productBarcode :: string
  price :: string
  productTags :: "string list"

text \<open>
  The state of the \<^verbatim>\<open>SyncService\<close> with its surroundings: the cache (a \<^verbatim>\<open>Map\<close>, in
  insertion order), the time of its last update, the clock, the outcomes to come of
  \<^verbatim>\<open>shopifyService.getAlbumProducts\<close> (each with the time the fetch takes, and either the
  message of the error it throws or the products it returns), and the number of fetches
  made so far.
\<close>

record syncWorld =
  albumProductsCache :: "(nat \<times> AlbumProduct) list"
  lastCacheUpdate :: int
  clock :: int
  shopify :: "(nat \<times> (string + AlbumProduct list)) list"
  fetches :: nat

text \<open>\<^verbatim>\<open>Map.prototype.set\<close>\<close>

fun mapSet :: "'k \<Rightarrow> 'v \<Rightarrow> ('k \<times> 'v) list \<Rightarrow> ('k \<times> 'v) list" where
  "mapSet k v [] = [(k, v)]"
| "mapSet k v ((k', v') # m) = (if k = k' then (k, v) # m else (k', v') # mapSet k v m)"

definition getAlbumProducts :: "syncWorld \<Rightarrow> (string + AlbumProduct list) \<times> syncWorld" where
  "getAlbumProducts sw =
     (case shopify sw of
        [] \<Rightarrow> (Inl ''Shopify Error: Failed to fetch products'', sw\<lparr>fetches := fetches sw + 1\<rparr>)
      | (latency, outcome) # rest \<Rightarrow>
          (outcome, sw\<lparr>clock := clock sw + int latency, shopify := rest, fetches := fetches sw + 1\<rparr>))"

definition syncAlbumProducts :: "syncWorld \<Rightarrow> (string + unit) \<times> syncWorld" where
  "syncAlbumProducts sw =
     (case getAlbumProducts sw of
        (Inl error, sw1) \<Rightarrow> (Inl error, sw1)
      | (Inr products, sw1) \<Rightarrow>
          (Inr (),
           sw1\<lparr>albumProductsCache :=
                  foldl (\<lambda>cache product. mapSet (variantId product) product cache) [] products,
                lastCacheUpdate := clock sw1\<rparr>))"

definition CACHE_TTL :: int where
  "CACHE_TTL = 60 * 60 * 1000"

definition ensureProductsCached :: "syncWorld \<Rightarrow> (string + unit) \<times> syncWorld" where
  "ensureProductsCached sw =
     (let cacheAge = clock sw - lastCacheUpdate sw
      in if cacheAge > CACHE_TTL \<or> length (albumProductsCache sw) = 0 then syncAlbumProducts sw
         else (Inr (), sw))"

section \<open>Example inputs\<close>

definition exampleProduct :: AlbumProduct where
  "exampleProduct =
     \<lparr>productId = 123456, variantId = 789012, title = ''Test Album'', variantTitle = ''CD Version'',
      vendor = ''Test Artist'', sku = ''ALB-001'', productBarcode = ''8809633189505'',
      price = ''25.00'', productTags = [''album'', ''k-pop'']\<rparr>"

text \<open>A cache that holds one product, built at time 1000, at clock 5000; the next fetch
  fails.\<close>

definition failingFetchWorld :: syncWorld where
  "failingFetchWorld =
     \<lparr>albumProductsCache = [(789012, exampleProduct)], lastCacheUpdate = 1000, clock = 5000,
      shopify = [(30, Inl ''Shopify Error: Failed to fetch products'')], fetches = 1\<rparr>"

text \<open>A service just created (empty cache, last update at the epoch) whose first fetch
  returns one product.\<close>

definition coldWorld :: syncWorld where
  "coldWorld =
     \<lparr>albumProductsCache = [], lastCacheUpdate = 0, clock = 1750000000000,
      shopify = [(30, Inr [exampleProduct]), (30, Inr [exampleProduct])], fetches = 0\<rparr>"

definition exampleConfig :: HanteoConfig where
  "exampleConfig = \<lparr>configFamilyCode = ''HF0001'', configBranchCode = ''HB0001''\<rparr>"

definition exampleTransaction :: "string \<Rightarrow> string \<Rightarrow> SalesTransaction" where
  "exampleTransaction order lineItem =
     \<lparr>orderId = order, orderName = ''#1001'', lineItemId = lineItem, barcode = ''8809633189505'',
      albumName = ''Test Album'', quantity = 1, customerInfo = None, shippingInfo = None,
      transactionTime = 1749690000000\<rparr>"

definition validToken :: HanteoToken where
  "validToken = \<lparr>accessToken = ''token-1'', tokenType = ''bearer'', expiresAt = 4600000\<rparr>"

definition tokenGranted :: "string \<Rightarrow> nat \<times> (AxiosError + HanteoTokenResponse)" where
  "tokenGranted t =
     (20, Inr \<lparr>tokenCode = 100, tokenMessage = ''Success'',
               tokenResultData = Some \<lparr>access_token = t, token_type = ''bearer'', expires_in = 3600\<rparr>\<rparr>)"

definition unauthorized :: "nat \<times> (AxiosError + HanteoSalesResponse)" where
  "unauthorized = (5, Inl (AxiosError ''Request failed with status code 401'' (Some (401, None))))"

definition accepted :: "int \<Rightarrow> HanteoSalesResponse" where
  "accepted n =
     \<lparr>code = 100, message = ''Success'',
      resultData = Some \<lparr>requestCount = n, successCount = n, failCount = 0, failData = None\<rparr>\<rparr>"

text \<open>A service with a valid token, at clock 1000000, and a server that answers 401 to
  the first eight submissions, grants every token request and accepts the ninth
  submission.\<close>

definition rejectingWorld :: world where
  "rejectingWorld =
     \<lparr>token = Some validToken, dateNow = 1000000,
      tokenEndpoint = [tokenGranted ''token-2'', tokenGranted ''token-3''],
      salesEndpoint =
        [unauthorized, unauthorized, unauthorized, unauthorized,
         unauthorized, unauthorized, unauthorized, unauthorized, (5, Inr (accepted 1))],
      trace = []\<rparr>"

text \<open>A service that holds no token, and a server that grants one.\<close>

definition unauthenticatedWorld :: world where
  "unauthenticatedWorld =
     \<lparr>token = None, dateNow = 1000000, tokenEndpoint = [tokenGranted ''token-2''],
      salesEndpoint = [], trace = []\<rparr>"

text \<open>Responses that reject the record whose operation value is \<open>A-1-1000000\<close>: one with
  the success code, one with the code of a partial success, and the latter without the
  failure map.\<close>

definition rejectedRecord :: "int \<Rightarrow> HanteoSalesResponse" where
  "rejectedRecord c =
     \<lparr>code = c, message = ''Partial success'',
      resultData = Some \<lparr>requestCount = 2, successCount = 1, failCount = 1,
                          failData = Some [(''A-1-1000000'', ''404_UC'')]\<rparr>\<rparr>"

definition partialWithoutMap :: HanteoSalesResponse where
  "partialWithoutMap =
     \<lparr>code = 101, message = ''Partial success'',
      resultData = Some \<lparr>requestCount = 2, successCount = 1, failCount = 1, failData = None\<rparr>\<rparr>"

definition answeringWorld :: "HanteoSalesResponse \<Rightarrow> world" where
  "answeringWorld response =
     \<lparr>token = Some validToken, dateNow = 1000000, tokenEndpoint = [],
      salesEndpoint = [(5, Inr response)], trace = []\<rparr>"

text \<open>A server that is down for the four attempts of the first batch and accepts the
  second batch.\<close>

definition outageWorld :: world where
  "outageWorld =
     \<lparr>token = Some validToken, dateNow = 1000000, tokenEndpoint = [],
      salesEndpoint =
        [(5, Inl networkError), (5, Inl networkError), (5, Inl networkError),
         (5, Inl networkError), (5, Inr (accepted 1))],
      trace = []\<rparr>"

definition twoTransactions :: "SalesTransaction list" where
  "twoTransactions = [exampleTransaction ''A'' ''1'', exampleTransaction ''B'' ''2'']"

definition batchesOfOne :: BatchOptions where
  "batchesOfOne = \<lparr>batchSizeOption = Some 1, delayBetweenBatchesOption = Some 10\<rparr>"

text \<open>Three transactions, and a server that accepts the first batch, is down for the four
  attempts of the second and accepts the third.\<close>

definition threeTransactions :: "SalesTransaction list" where
  "threeTransactions =
     [exampleTransaction ''A'' ''1'', exampleTransaction ''B'' ''2'', exampleTransaction ''C'' ''3'']"

definition midOutageWorld :: world where
  "midOutageWorld =
     \<lparr>token = Some validToken, dateNow = 1000000, tokenEndpoint = [],
      salesEndpoint =
        [(5, Inr (accepted 1)),
         (5, Inl networkError), (5, Inl networkError), (5, Inl networkError), (5, Inl networkError),
         (5, Inr (accepted 1))],
      trace = []\<rparr>"

text \<open>A server that answers the first batch with a partial success and its failure map and
  accepts the second, and a server that accepts both.\<close>

definition partialThenAccepted :: world where
  "partialThenAccepted =
     \<lparr>token = Some validToken, dateNow = 1000000, tokenEndpoint = [],
      salesEndpoint = [(5, Inr (rejectedRecord 101)), (5, Inr (accepted 1))], trace = []\<rparr>"

definition acceptingWorld :: world where
  "acceptingWorld =
     \<lparr>token = Some validToken, dateNow = 1000000, tokenEndpoint = [],
      salesEndpoint = [(5, Inr (accepted 1)), (5, Inr (accepted 1))], trace = []\<rparr>"

text \<open>A server that rejects \<open>n\<close> rounds of four submissions with 401, grants \<open>n\<close> token
  requests and accepts the submission after them.\<close>

definition rejectedRound :: "(nat \<times> (AxiosError + HanteoSalesResponse)) list" where
  "rejectedRound = [unauthorized, unauthorized, unauthorized, unauthorized]"

definition persistentlyRejecting :: "nat \<Rightarrow> world" where
  "persistentlyRejecting n =
     \<lparr>token = Some validToken, dateNow = 1000000,
      tokenEndpoint = replicate n (tokenGranted ''token-2''),
      salesEndpoint = concat (replicate n rejectedRound) @ [(5, Inr (accepted 1))], trace = []\<rparr>"

text \<open>The number of requests to the token endpoint in a trace.\<close>

definition authentications :: "event list \<Rightarrow> nat" where
  "authentications es = length (filter (\<lambda>e. e = PostToken) es)"

section \<open>Decimal notation\<close>

lemma digitChar_values:
  "digitChar 0 = CHR ''0''" "digitChar 1 = CHR ''1''" "digitChar (Suc 0) = CHR ''1''" "digitChar 2 = CHR ''2''"
  "digitChar 3 = CHR ''3''" "digitChar 4 = CHR ''4''" "digitChar 5 = CHR ''5''"
  "digitChar 6 = CHR ''6''" "digitChar 7 = CHR ''7''" "digitChar 8 = CHR ''8''"
  "digitChar 9 = CHR ''9''"
  by code_simp+

lemmas decimal = toString_def natToString.simps digitChar_values

section \<open>Barcode validation\<close>

lemma test_single: "test [(cls, n)] s = (length s = n \<and> list_all cls s)"
  by (auto simp: list_all_iff dest: in_set_takeD)

lemma drop_last1: "length s = Suc n \<Longrightarrow> drop n s = [s ! n]"
  using Cons_nth_drop_Suc[of n s] by simp

lemma test_ISBN10:
  "test ISBN10 s = (length s = 10 \<and> list_all isDigit (take 9 s) \<and> (isDigit (s ! 9) \<or> s ! 9 = CHR ''X''))"
  unfolding ISBN10_def
  by (cases "length s = 10") (auto simp: drop_last1)

lemma test_ISBN13:
  "test ISBN13 s = (length s = 13 \<and> take 3 s \<in> {''978'', ''979''} \<and> list_all isDigit (drop 3 s))"
proof (cases "length s = 13")
  case True
  then obtain a b c r where s: "s = a # b # c # r" and r: "length r = 10"
    by (cases s; simp; cases "tl s"; simp; cases "tl (tl s)"; simp)
  show ?thesis unfolding ISBN13_def s using r by auto
next
  case False
  then show ?thesis unfolding ISBN13_def by auto
qed

lemma isDigit_not_space: "isDigit c \<Longrightarrow> \<not> isWhiteSpace c"
  by (auto simp: isDigit_def isWhiteSpace_def)

lemma test_no_space:
  "test ps s \<Longrightarrow> list_all (\<lambda>(cls, n). \<forall>c. cls c \<longrightarrow> \<not> isWhiteSpace c) ps \<Longrightarrow> \<not> list_ex isWhiteSpace s"
proof (induction ps arbitrary: s)
  case Nil
  then show ?case by simp
next
  case (Cons p ps)
  obtain cls n where p: "p = (cls, n)" by (cases p)
  from Cons.prems have a: "list_all cls (take n s)" and b: "test ps (drop n s)"
    and c: "\<forall>c. cls c \<longrightarrow> \<not> isWhiteSpace c"
    and d: "list_all (\<lambda>(cls, n). \<forall>c. cls c \<longrightarrow> \<not> isWhiteSpace c) ps"
    by (simp_all add: p)
  from Cons.IH[OF b d] have "\<not> list_ex isWhiteSpace (drop n s)" .
  moreover from a c have "\<not> list_ex isWhiteSpace (take n s)"
    by (auto simp: list_all_iff list_ex_iff)
  moreover have "s = take n s @ drop n s" by simp
  ultimately show ?case
    by (metis list_ex_append)
qed

lemma patterns_no_space:
  "list_all (\<lambda>ps. list_all (\<lambda>(cls, n). \<forall>c. cls c \<longrightarrow> \<not> isWhiteSpace c) ps) BARCODE_PATTERNS"
  by (auto simp: BARCODE_PATTERNS_def EAN13_def EAN8_def UPC_def ISBN10_def ISBN13_def
      isDigit_def isWhiteSpace_def)

lemma isValidBarcode_patterns:
  "isValidBarcode s = list_ex (\<lambda>pattern. test pattern (trim s)) BARCODE_PATTERNS"
proof (cases "trim s = []")
  case True
  then show ?thesis
    by (simp add: isValidBarcode_def BARCODE_PATTERNS_def EAN13_def EAN8_def UPC_def
        ISBN10_def ISBN13_def)
next
  case False
  then have "s \<noteq> []" by (auto simp: trim_def)
  with False show ?thesis by (simp add: isValidBarcode_def)
qed

text \<open>
  Claim C7. For every string, \<open>isValidBarcode\<close> is true exactly when the trimmed value
  is a string of digits of length 8, 12 or 13, or has the ISBN-10 form (nine digits and a
  digit or \<open>X\<close>) or the ISBN-13 form (\<open>978\<close> or \<open>979\<close> and ten digits); a value that still
  holds white space after trimming is invalid.
\<close>

theorem isValidBarcode_characterisation:
  "(isValidBarcode s \<longleftrightarrow>
      (list_all isDigit (trim s) \<and> length (trim s) \<in> {8, 12, 13})
      \<or> (length (trim s) = 10 \<and> list_all isDigit (take 9 (trim s))
          \<and> (isDigit (trim s ! 9) \<or> trim s ! 9 = CHR ''X''))
      \<or> (length (trim s) = 13 \<and> take 3 (trim s) \<in> {''978'', ''979''}
          \<and> list_all isDigit (drop 3 (trim s))))
   \<and> (list_ex isWhiteSpace (trim s) \<longrightarrow> \<not> isValidBarcode s)"
proof
  show "isValidBarcode s \<longleftrightarrow>
      (list_all isDigit (trim s) \<and> length (trim s) \<in> {8, 12, 13})
      \<or> (length (trim s) = 10 \<and> list_all isDigit (take 9 (trim s))
          \<and> (isDigit (trim s ! 9) \<or> trim s ! 9 = CHR ''X''))
      \<or> (length (trim s) = 13 \<and> take 3 (trim s) \<in> {''978'', ''979''}
          \<and> list_all isDigit (drop 3 (trim s)))"
    unfolding isValidBarcode_patterns BARCODE_PATTERNS_def
    by (simp add: test_ISBN10 test_ISBN13 EAN13_def EAN8_def UPC_def test_single del: test.simps)
      blast
  show "list_ex isWhiteSpace (trim s) \<longrightarrow> \<not> isValidBarcode s"
    unfolding isValidBarcode_patterns
    using patterns_no_space test_no_space
    by (auto simp: list_all_iff list_ex_iff)
qed

theorem isValidBarcode_characterisation_witness:
  "isValidBarcode '' 8809633189505 '' \<and> isValidBarcode ''123456789X''
   \<and> list_ex isWhiteSpace (trim ''8809633 189505'') \<and> \<not> isValidBarcode ''8809633 189505''"
  using isValidBarcode_characterisation[of "'' 8809633189505 ''"]
    isValidBarcode_characterisation[of "''123456789X''"]
    isValidBarcode_characterisation[of "''8809633 189505''"]
  by (simp add: trim_def isWhiteSpace_def isDigit_def)


section \<open>The catalog cache\<close>

lemma getAlbumProducts_frame:
  "albumProductsCache (snd (getAlbumProducts sw)) = albumProductsCache sw
   \<and> lastCacheUpdate (snd (getAlbumProducts sw)) = lastCacheUpdate sw
   \<and> fetches (snd (getAlbumProducts sw)) = fetches sw + 1"
  by (simp add: getAlbumProducts_def split: list.splits prod.splits)

lemma syncAlbumProducts_fetches: "fetches (snd (syncAlbumProducts sw)) = fetches sw + 1"
  using getAlbumProducts_frame[of sw]
  by (cases "getAlbumProducts sw") (auto simp: syncAlbumProducts_def split: sum.splits)

text \<open>
  Claim C6. Whatever the cache holds, when the product fetch of \<open>syncAlbumProducts\<close>
  throws, the error reaches the caller and the cache keeps its entries and the time of
  its last update.
\<close>

theorem syncAlbumProducts_fetch_error:
  assumes "fst (getAlbumProducts sw) = Inl error"
  shows "fst (syncAlbumProducts sw) = Inl error
     \<and> albumProductsCache (snd (syncAlbumProducts sw)) = albumProductsCache sw
     \<and> lastCacheUpdate (snd (syncAlbumProducts sw)) = lastCacheUpdate sw"
  using assms getAlbumProducts_frame[of sw]
  by (cases "getAlbumProducts sw") (simp add: syncAlbumProducts_def)

theorem syncAlbumProducts_fetch_error_witness:
  "fst (getAlbumProducts failingFetchWorld) = Inl ''Shopify Error: Failed to fetch products''
   \<and> fst (syncAlbumProducts failingFetchWorld) = Inl ''Shopify Error: Failed to fetch products''
   \<and> albumProductsCache (snd (syncAlbumProducts failingFetchWorld)) = [(789012, exampleProduct)]
   \<and> lastCacheUpdate (snd (syncAlbumProducts failingFetchWorld)) = 1000"
proof -
  have h: "fst (getAlbumProducts failingFetchWorld) = Inl ''Shopify Error: Failed to fetch products''"
    by (simp add: getAlbumProducts_def failingFetchWorld_def)
  from syncAlbumProducts_fetch_error[OF h] h show ?thesis
    by (simp add: failingFetchWorld_def)
qed

text \<open>
  Claim C9. A freshness check on a cache that is not empty and whose age is within the
  TTL fetches nothing and changes nothing; a check on an empty cache, or on one older
  than the TTL, runs the refresh, which makes one fetch. So after a check that refreshed a
  cache with a product, a second check fetches again only once more than the TTL has
  gone by.
\<close>

theorem ensureProductsCached_fetches:
  "(albumProductsCache sw \<noteq> [] \<and> clock sw - lastCacheUpdate sw \<le> CACHE_TTL
      \<longrightarrow> ensureProductsCached sw = (Inr (), sw))
   \<and> (albumProductsCache sw = [] \<or> clock sw - lastCacheUpdate sw > CACHE_TTL
      \<longrightarrow> ensureProductsCached sw = syncAlbumProducts sw
        \<and> fetches (snd (ensureProductsCached sw)) = fetches sw + 1)
   \<and> (ensureProductsCached sw = (Inr (), sw1) \<and> fetches sw1 = fetches sw + 1
        \<and> albumProductsCache sw1 \<noteq> []
      \<longrightarrow> (elapsed \<le> CACHE_TTL
            \<longrightarrow> fetches (snd (ensureProductsCached (sw1\<lparr>clock := clock sw1 + elapsed\<rparr>))) = fetches sw1)
        \<and> (elapsed > CACHE_TTL
            \<longrightarrow> fetches (snd (ensureProductsCached (sw1\<lparr>clock := clock sw1 + elapsed\<rparr>)))
                = fetches sw1 + 1))"
proof (intro conjI impI)
  assume "albumProductsCache sw \<noteq> [] \<and> clock sw - lastCacheUpdate sw \<le> CACHE_TTL"
  then show "ensureProductsCached sw = (Inr (), sw)"
    by (simp add: ensureProductsCached_def)
next
  assume a: "albumProductsCache sw = [] \<or> clock sw - lastCacheUpdate sw > CACHE_TTL"
  then show "ensureProductsCached sw = syncAlbumProducts sw"
    by (auto simp: ensureProductsCached_def)
  then show "fetches (snd (ensureProductsCached sw)) = fetches sw + 1"
    by (simp add: syncAlbumProducts_fetches)
next
  assume a: "ensureProductsCached sw = (Inr (), sw1) \<and> fetches sw1 = fetches sw + 1
        \<and> albumProductsCache sw1 \<noteq> []"
  have refreshed: "syncAlbumProducts sw = (Inr (), sw1)"
    using a by (auto simp: ensureProductsCached_def Let_def split: if_splits)
  have upd: "lastCacheUpdate sw1 = clock sw1"
    using refreshed
    by (cases "getAlbumProducts sw") (auto simp: syncAlbumProducts_def split: sum.splits)
  let ?sw2 = "sw1\<lparr>clock := clock sw1 + elapsed\<rparr>"
  {
    assume "elapsed \<le> CACHE_TTL"
    with a upd show "fetches (snd (ensureProductsCached ?sw2)) = fetches sw1"
      by (simp add: ensureProductsCached_def)
  }
  {
    assume "elapsed > CACHE_TTL"
    with upd have "ensureProductsCached ?sw2 = syncAlbumProducts ?sw2"
      by (simp add: ensureProductsCached_def)
    then show "fetches (snd (ensureProductsCached ?sw2)) = fetches sw1 + 1"
      by (simp add: syncAlbumProducts_fetches)
  }
qed

lemma coldWorld_first:
  "ensureProductsCached coldWorld =
     (Inr (), coldWorld\<lparr>clock := 1750000000030, shopify := [(30, Inr [exampleProduct])], fetches := 1,
        albumProductsCache := [(789012, exampleProduct)], lastCacheUpdate := 1750000000030\<rparr>)"
  by (simp add: ensureProductsCached_def coldWorld_def CACHE_TTL_def syncAlbumProducts_def
      getAlbumProducts_def exampleProduct_def)

theorem ensureProductsCached_fetches_witness:
  "fetches (snd (ensureProductsCached coldWorld)) = 1
   \<and> fetches (snd (ensureProductsCached
        ((snd (ensureProductsCached coldWorld))\<lparr>clock := 1750000000030 + 3600000\<rparr>))) = 1
   \<and> fetches (snd (ensureProductsCached
        ((snd (ensureProductsCached coldWorld))\<lparr>clock := 1750000000030 + 3600001\<rparr>))) = 2"
  using ensureProductsCached_fetches[of coldWorld "snd (ensureProductsCached coldWorld)" 3600000]
    ensureProductsCached_fetches[of coldWorld "snd (ensureProductsCached coldWorld)" 3600001]
  by (simp add: coldWorld_first CACHE_TTL_def) (simp add: coldWorld_def)


section \<open>Submission of one batch\<close>

lemmas hanteo_defs = ensureAuthenticated_def isTokenValid_def expiryBuffer_def authenticate_def
  postToken_def postSales_def observe_def sleep_def submit_def retryWithBackoff_def
  salesRetryOptions_def retryAttempts_def retryDelay_def maxBatchSize_def responseFailData_def
  SUCCESS_def PARTIAL_SUCCESS_def INVALID_TOKEN_def TOKEN_EXPIRED_def INVALID_DATA_def
  networkError_def authenticationFailed_def

lemmas example_defs = exampleConfig_def exampleTransaction_def validToken_def tokenGranted_def
  unauthorized_def accepted_def rejectingWorld_def unauthenticatedWorld_def rejectedRecord_def
  partialWithoutMap_def answeringWorld_def outageWorld_def twoTransactions_def batchesOfOne_def

lemma authenticate_trace: "trace (snd (authenticate w)) = trace w @ [PostToken]"
  by (simp add: authenticate_def postToken_def observe_def split: list.splits prod.splits sum.splits option.splits)

text \<open>
  Claim C3, as amended. With an empty list \<open>sendSalesData\<close> never posts to the sales
  endpoint. When the stored token is valid it makes no request at all and returns the
  response with all counts zero, leaving the world as it was. When the token is missing or
  within five minutes of its expiry it first makes one request to the token endpoint: it
  then returns the zero-count response if the authentication succeeds and raises the
  authentication error if it fails.
\<close>

theorem sendSalesData_empty:
  "sendSalesData cfg [] w =
     (if isTokenValid w then (Inr emptyResponse, w)
      else case authenticate w of
             (Inl e, w1) \<Rightarrow> (Inl e, w1)
           | (Inr u, w1) \<Rightarrow> (Inr emptyResponse, w1))
   \<and> trace (snd (sendSalesData cfg [] w)) = trace w @ (if isTokenValid w then [] else [PostToken])
   \<and> salesEndpoint (snd (sendSalesData cfg [] w)) = salesEndpoint w
   \<and> code emptyResponse = SUCCESS
   \<and> resultData emptyResponse
       = Some \<lparr>requestCount = 0, successCount = 0, failCount = 0, failData = None\<rparr>"
proof -
  have eq: "sendSalesData cfg [] w =
     (if isTokenValid w then (Inr emptyResponse, w)
      else case authenticate w of
             (Inl e, w1) \<Rightarrow> (Inl e, w1)
           | (Inr u, w1) \<Rightarrow> (Inr emptyResponse, w1))"
    by (simp add: ensureAuthenticated_def split: prod.splits sum.splits)
  have tr: "trace (snd (sendSalesData cfg [] w)) = trace w @ (if isTokenValid w then [] else [PostToken])"
    using authenticate_trace[of w]
    by (simp only: eq) (auto split: prod.splits sum.splits)
  have se: "salesEndpoint (snd (sendSalesData cfg [] w)) = salesEndpoint w"
    using authenticate_salesEndpoint[of w]
    by (simp only: eq) (auto split: prod.splits sum.splits)
  show ?thesis using eq tr se by (simp add: emptyResponse_def)
qed

theorem sendSalesData_empty_witness:
  "isTokenValid (answeringWorld (accepted 1))
   \<and> sendSalesData exampleConfig [] (answeringWorld (accepted 1))
       = (Inr emptyResponse, answeringWorld (accepted 1))
   \<and> trace (snd (sendSalesData exampleConfig [] (answeringWorld (accepted 1)))) = []"
  using sendSalesData_empty[of exampleConfig "answeringWorld (accepted 1)"]
  by (simp add: isTokenValid_def answeringWorld_def validToken_def expiryBuffer_def)

theorem sendSalesData_empty_counterexample:
  "trace unauthenticatedWorld = []
   \<and> trace (snd (sendSalesData exampleConfig [] unauthenticatedWorld)) = [PostToken]"
  by (simp add: hanteo_defs example_defs)


text \<open>
  Claim C10. When the submission of a batch that is neither empty nor over the size limit
  comes back with the code of a partial success and no failure map (whether the result
  data has none or is itself absent), \<open>sendSalesData\<close> returns that response; it raises
  nothing.
\<close>

theorem sendSalesData_partial_without_failData:
  assumes "transactions \<noteq> []" and "length transactions \<le> maxBatchSize"
    and "ensureAuthenticated w = (Inr (), w1)"
    and "retryWithBackoff salesRetryOptions
           (postSales (map (convertToHanteoFormat cfg (dateNow w1)) transactions)) w1
         = (Inr response, w2)"
    and "code response = PARTIAL_SUCCESS"
    and "responseFailData response = None"
  shows "sendSalesData cfg transactions w = (Inr response, w2)"
  using assms by (simp add: submit_def Let_def PARTIAL_SUCCESS_def SUCCESS_def)

theorem sendSalesData_partial_without_failData_witness:
  "twoTransactions \<noteq> [] \<and> length twoTransactions \<le> maxBatchSize
   \<and> code partialWithoutMap = PARTIAL_SUCCESS \<and> responseFailData partialWithoutMap = None
   \<and> fst (sendSalesData exampleConfig twoTransactions (answeringWorld partialWithoutMap))
       = Inr partialWithoutMap"
proof -
  let ?w = "answeringWorld partialWithoutMap"
  let ?w2 = "snd (retryWithBackoff salesRetryOptions
           (postSales (map (convertToHanteoFormat exampleConfig (dateNow ?w)) twoTransactions)) ?w)"
  have a: "twoTransactions \<noteq> []" "length twoTransactions \<le> maxBatchSize"
    by (simp_all add: twoTransactions_def maxBatchSize_def)
  have b: "ensureAuthenticated ?w = (Inr (), ?w)"
    by (simp add: hanteo_defs example_defs)
  have c: "retryWithBackoff salesRetryOptions
           (postSales (map (convertToHanteoFormat exampleConfig (dateNow ?w)) twoTransactions)) ?w
         = (Inr partialWithoutMap, ?w2)"
    by (simp add: hanteo_defs example_defs)
  have d: "code partialWithoutMap = PARTIAL_SUCCESS" "responseFailData partialWithoutMap = None"
    by (simp_all add: hanteo_defs example_defs)
  from sendSalesData_partial_without_failData[OF a b c d] a d show ?thesis by simp
qed

lemma sendSalesData_after_rejection:
  assumes "transactions \<noteq> []" and "length transactions \<le> maxBatchSize"
    and "ensureAuthenticated w = (Inr (), w1)"
    and "submit (map (convertToHanteoFormat cfg (dateNow w1)) transactions) w1 = (Inl error, w2)"
    and "tokenRejected error"
    and "authenticate (w2\<lparr>token := None\<rparr>) = (Inr (), w3)"
  shows "sendSalesData cfg transactions w = sendSalesData cfg transactions w3"
  using assms by (subst sendSalesData.simps) (simp add: Let_def)

lemma rejected_round:
  assumes valid: "isTokenValid w" and txs: "txs \<noteq> []" "length txs \<le> maxBatchSize"
    and sales: "salesEndpoint w = rejectedRound @ rest"
    and tokens: "tokenEndpoint w = tokenGranted t # granted"
  shows "\<exists>w'. sendSalesData cfg txs w = sendSalesData cfg txs w' \<and> isTokenValid w'
      \<and> salesEndpoint w' = rest \<and> tokenEndpoint w' = granted
      \<and> authentications (trace w') = Suc (authentications (trace w))"
proof -
  from valid obtain tk where tk: "token w = Some tk"
    by (auto simp: isTokenValid_def split: option.splits)
  let ?sd = "map (convertToHanteoFormat cfg (dateNow w)) txs"
  have ea: "ensureAuthenticated w = (Inr (), w)"
    using valid by (simp add: ensureAuthenticated_def)
  have "\<exists>e w2. submit ?sd w = (Inl e, w2) \<and> tokenRejected e \<and> salesEndpoint w2 = rest
      \<and> tokenEndpoint w2 = tokenEndpoint w
      \<and> authentications (trace w2) = authentications (trace w)"
    using tk sales
    by (simp add: submit_def retryWithBackoff_def salesRetryOptions_def retryAttempts_def retryDelay_def
        postSales_def observe_def sleep_def rejectedRound_def unauthorized_def authentications_def)
  then obtain e w2 where sb: "submit ?sd w = (Inl e, w2)" and rej: "tokenRejected e"
    and w2: "salesEndpoint w2 = rest" "tokenEndpoint w2 = tokenEndpoint w"
      "authentications (trace w2) = authentications (trace w)" by blast
  have "\<exists>w3. authenticate (w2\<lparr>token := None\<rparr>) = (Inr (), w3) \<and> isTokenValid w3
      \<and> salesEndpoint w3 = rest \<and> tokenEndpoint w3 = granted
      \<and> authentications (trace w3) = Suc (authentications (trace w2))"
    using w2 tokens
    by (simp add: authenticate_def postToken_def observe_def tokenGranted_def SUCCESS_def
        isTokenValid_def expiryBuffer_def authentications_def)
  then obtain w3 where au: "authenticate (w2\<lparr>token := None\<rparr>) = (Inr (), w3)"
    and w3: "isTokenValid w3" "salesEndpoint w3 = rest" "tokenEndpoint w3 = granted"
      "authentications (trace w3) = Suc (authentications (trace w2))" by blast
  from sendSalesData_after_rejection[OF txs ea sb rej au] w3 w2 show ?thesis by auto
qed

lemma accepted_at_once:
  assumes valid: "isTokenValid w" and txs: "txs \<noteq> []" "length txs \<le> maxBatchSize"
    and sales: "salesEndpoint w = [(5, Inr (accepted 1))]"
  shows "fst (sendSalesData cfg txs w) = Inr (accepted 1)
      \<and> authentications (trace (snd (sendSalesData cfg txs w))) = authentications (trace w)"
proof -
  from valid obtain tk where tk: "token w = Some tk"
    by (auto simp: isTokenValid_def split: option.splits)
  have ea: "ensureAuthenticated w = (Inr (), w)"
    using valid by (simp add: ensureAuthenticated_def)
  show ?thesis
    using tk sales txs ea
    by (subst (1 2) sendSalesData.simps)
      (simp add: submit_def retryWithBackoff_def salesRetryOptions_def postSales_def observe_def
        accepted_def responseFailData_def SUCCESS_def PARTIAL_SUCCESS_def authentications_def Let_def)
qed

lemma rejected_rounds:
  assumes txs: "txs \<noteq> []" "length txs \<le> maxBatchSize"
  shows "isTokenValid w \<Longrightarrow>
    salesEndpoint w = concat (replicate n rejectedRound) @ [(5, Inr (accepted 1))] \<Longrightarrow>
    tokenEndpoint w = replicate n (tokenGranted t) \<Longrightarrow>
    fst (sendSalesData cfg txs w) = Inr (accepted 1)
    \<and> authentications (trace (snd (sendSalesData cfg txs w))) = authentications (trace w) + n"
proof (induction n arbitrary: w)
  case 0
  with accepted_at_once[OF 0(1) txs, of cfg] show ?case by simp
next
  case (Suc n)
  from Suc.prems have s: "salesEndpoint w = rejectedRound @ (concat (replicate n rejectedRound) @ [(5, Inr (accepted 1))])"
    and g: "tokenEndpoint w = tokenGranted t # replicate n (tokenGranted t)" by simp_all
  from rejected_round[OF Suc.prems(1) txs s g, of cfg] obtain w' where
    w': "sendSalesData cfg txs w = sendSalesData cfg txs w'" "isTokenValid w'"
      "salesEndpoint w' = concat (replicate n rejectedRound) @ [(5, Inr (accepted 1))]"
      "tokenEndpoint w' = replicate n (tokenGranted t)"
      "authentications (trace w') = Suc (authentications (trace w))" by blast
  from Suc.IH[OF w'(2,3,4)] w'(1,5) show ?case by simp
qed

text \<open>
  Claim C1 (a defect of the code). \<open>sendSalesData\<close> does not stop after one cycle of
  re-authentication and retry. Against a server that rejects \<open>n\<close> rounds of submissions
  with 401 and grants every token request, it authenticates \<open>n\<close> times and returns the
  success of the submission that follows, whatever \<open>n\<close> is. On \<open>rejectingWorld\<close>, whose
  server answers 401 to the first eight submissions, the trace shows the second run of
  rejected attempts followed by another authentication and a third round, which is the one
  the caller sees succeed.
\<close>

theorem sendSalesData_repeats_reauthentication:
  "fst (sendSalesData exampleConfig [exampleTransaction ''A'' ''1''] (persistentlyRejecting n))
     = Inr (accepted 1)
   \<and> authentications (trace (snd (sendSalesData exampleConfig [exampleTransaction ''A'' ''1'']
        (persistentlyRejecting n)))) = n
   \<and> fst (sendSalesData exampleConfig [exampleTransaction ''A'' ''1''] rejectingWorld)
     = Inr (accepted 1)
   \<and> map outline
        (trace (snd (sendSalesData exampleConfig [exampleTransaction ''A'' ''1''] rejectingWorld)))
     = [PostSales ''token-1'' [], Backoff 1000, PostSales ''token-1'' [], Backoff 2000,
        PostSales ''token-1'' [], Backoff 4000, PostSales ''token-1'' [],
        PostToken,
        PostSales ''token-2'' [], Backoff 1000, PostSales ''token-2'' [], Backoff 2000,
        PostSales ''token-2'' [], Backoff 4000, PostSales ''token-2'' [],
        PostToken,
        PostSales ''token-3'' []]"
proof -
  have v: "isTokenValid (persistentlyRejecting n)"
    by (simp add: persistentlyRejecting_def isTokenValid_def validToken_def expiryBuffer_def)
  have "authentications (trace (persistentlyRejecting n)) = 0"
    by (simp add: persistentlyRejecting_def authentications_def)
  with v rejected_rounds[of "[exampleTransaction ''A'' ''1'']" "persistentlyRejecting n" n
      "''token-2''" exampleConfig]
  have general: "fst (sendSalesData exampleConfig [exampleTransaction ''A'' ''1''] (persistentlyRejecting n))
     = Inr (accepted 1)
   \<and> authentications (trace (snd (sendSalesData exampleConfig [exampleTransaction ''A'' ''1'']
        (persistentlyRejecting n)))) = n"
    by (simp add: persistentlyRejecting_def maxBatchSize_def)
  have "fst (sendSalesData exampleConfig [exampleTransaction ''A'' ''1''] rejectingWorld)
     = Inr (accepted 1)
   \<and> map outline
        (trace (snd (sendSalesData exampleConfig [exampleTransaction ''A'' ''1''] rejectingWorld)))
     = [PostSales ''token-1'' [], Backoff 1000, PostSales ''token-1'' [], Backoff 2000,
        PostSales ''token-1'' [], Backoff 4000, PostSales ''token-1'' [],
        PostToken,
        PostSales ''token-2'' [], Backoff 1000, PostSales ''token-2'' [], Backoff 2000,
        PostSales ''token-2'' [], Backoff 4000, PostSales ''token-2'' [],
        PostToken,
        PostSales ''token-3'' []]"
    by (simp add: hanteo_defs example_defs Let_def)
  with general show ?thesis by simp
qed

section \<open>Submission in batches\<close>

subsection \<open>Chunks\<close>

lemma chunk_Nil [simp]: "chunk c [] = []"
  by (simp add: chunk.simps)

lemma chunk_zero [simp]: "chunk 0 xs = []"
  by (simp add: chunk.simps)

lemma chunk_step: "0 < c \<Longrightarrow> xs \<noteq> [] \<Longrightarrow> chunk c xs = take c xs # chunk c (drop c xs)"
  by (subst chunk.simps) simp

lemma chunk_eq_Nil: "0 < c \<Longrightarrow> chunk c xs = [] \<longleftrightarrow> xs = []"
  by (cases "xs = []") (simp_all add: chunk_step)

lemma concat_chunk: "0 < c \<Longrightarrow> concat (chunk c xs) = xs"
proof (induction c xs rule: chunk.induct)
  case (1 c xs)
  then show ?case by (cases "xs = []") (simp_all add: chunk_step)
qed

lemma ceiling_div:
  "0 < c \<Longrightarrow> (n + c - 1) div c = n div c + (if n mod c = 0 then 0 else 1)" for n c :: nat
proof -
  assume c: "0 < c"
  define q r where "q = n div c" and "r = n mod c"
  have n: "n = r + q * c" and r: "r < c" using c by (simp_all add: q_def r_def)
  show ?thesis
  proof (cases "r = 0")
    case True
    with n c have "n + c - 1 = (c - 1) + q * c" by arith
    then have "(n + c - 1) div c = (c - 1 + q * c) div c" by simp
    also have "\<dots> = q + (c - 1) div c" using c by (intro div_mult_self1) simp
    also have "\<dots> = q" using c by simp
    finally show ?thesis using True by (simp add: q_def r_def)
  next
    case False
    with n c have "n + c - 1 = (r - 1) + (q + 1) * c" by (simp add: algebra_simps)
    then have "(n + c - 1) div c = (r - 1 + (q + 1) * c) div c" by simp
    also have "\<dots> = (q + 1) + (r - 1) div c" using c by (intro div_mult_self1) simp
    also have "\<dots> = q + 1" using r by simp
    finally show ?thesis using False by (simp add: q_def r_def)
  qed
qed

lemmas ceiling_div_Suc = ceiling_div[unfolded One_nat_def]

lemma length_chunk: "0 < c \<Longrightarrow> length (chunk c xs) = (length xs + c - 1) div c"
proof (induction c xs rule: chunk.induct)
  case (1 c xs)
  show ?case
  proof (cases "xs = []")
    case True
    with "1.prems" show ?thesis by simp
  next
    case False
    with "1.prems" have "length (chunk c xs) = Suc ((length (drop c xs) + c - 1) div c)"
      using "1.IH" by (simp add: chunk_step)
    also have "\<dots> = (length xs + c - 1) div c"
    proof (cases "c \<le> length xs")
      case True
      then have "length xs + c - 1 = (length xs - c + c - 1) + 1 * c" using "1.prems" by simp
      then have "(length xs + c - 1) div c = (length xs - c + c - 1) div c + 1"
        using "1.prems" by (metis div_mult_self1 less_numeral_extra(3) add.commute)
      then show ?thesis by simp
    next
      case False
      with \<open>xs \<noteq> []\<close> "1.prems" have "(length xs + c - 1) div c = 1"
        by (simp add: ceiling_div_Suc)
      with False "1.prems" show ?thesis by simp
    qed
    finally show ?thesis .
  qed
qed

lemma nth_chunk:
  "0 < c \<Longrightarrow> k < length (chunk c xs) \<Longrightarrow> chunk c xs ! k = take c (drop (k * c) xs)"
proof (induction k arbitrary: xs)
  case 0
  then have "xs \<noteq> []" by (auto simp: chunk_eq_Nil)
  with 0 show ?case by (simp add: chunk_step)
next
  case (Suc k)
  then have ne: "xs \<noteq> []" by (auto simp: chunk_eq_Nil)
  with Suc.prems have "k < length (chunk c (drop c xs))" by (simp add: chunk_step)
  from Suc.IH[OF Suc.prems(1) this] ne Suc.prems(1) show ?case
    by (simp add: chunk_step add.commute)
qed

lemma length_nth_chunk:
  assumes "0 < c" and "k < length (chunk c xs)"
  shows "length (chunk c xs ! k)
     = (if Suc k < length (chunk c xs) \<or> length xs mod c = 0 then c else length xs mod c)"
proof -
  define n where "n = length xs"
  define q r where "q = n div c" and "r = n mod c"
  have n: "n = q * c + r" and r: "r < c" using assms(1) by (simp_all add: q_def r_def)
  have num: "length (chunk c xs) = q + (if r = 0 then 0 else 1)"
    using assms(1) by (simp add: length_chunk ceiling_div_Suc n_def q_def r_def)
  have len: "length (chunk c xs ! k) = min c (n - k * c)"
    using assms by (simp add: nth_chunk n_def min.commute)
  show ?thesis
  proof (cases "Suc k < length (chunk c xs)")
    case True
    with num have "Suc k \<le> q" by (simp split: if_splits)
    then have "Suc k * c \<le> q * c" by (rule mult_le_mono1)
    with n have "c \<le> n - k * c" by simp
    with len True show ?thesis by simp
  next
    case False
    with assms(2) have k: "Suc k = length (chunk c xs)" by simp
    show ?thesis
    proof (cases "r = 0")
      case True
      with num k have "q = Suc k" by simp
      with n True have "n - k * c = c" by simp
      with len True show ?thesis by (simp add: r_def n_def)
    next
      case False
      with num k have "q = k" by simp
      with n have "n - k * c = r" by simp
      with len r False k show ?thesis by (simp add: r_def n_def)
    qed
  qed
qed

subsection \<open>Failed records\<close>

text \<open>
  Claim C2 (a defect of the code). The response names the record sent as \<open>A-1-1000000\<close>
  as rejected with \<open>404_UC\<close>. The batch loop looks the key up with operation values
  generated anew, at the clock of the lookup, five milliseconds after the one the record was
  sent with: under the success code nothing matches and no failed transaction is
  reported. Under the code of a partial success \<open>sendSalesData\<close> throws, and the loop
  reports every transaction of the batch as failed with the message of that error.
\<close>

theorem failed_record_is_not_reconstructed:
  "map_option (\<lambda>(results, w). (postedOpVals (trace w), failedTransactions results))
      (sendSalesDataInBatches exampleConfig twoTransactions
         \<lparr>batchSizeOption = None, delayBetweenBatchesOption = None\<rparr>
         (answeringWorld (rejectedRecord 100)))
     = Some ([[''A-1-1000000'', ''B-2-1000000'']], [])
   \<and> map_option (\<lambda>(results, w). (postedOpVals (trace w), failedTransactions results))
      (sendSalesDataInBatches exampleConfig twoTransactions
         \<lparr>batchSizeOption = None, delayBetweenBatchesOption = None\<rparr>
         (answeringWorld (rejectedRecord 101)))
     = Some ([[''A-1-1000000'', ''B-2-1000000'']],
             [(exampleTransaction ''A'' ''1'', ''Hanteo Error: Partial success - some records failed''),
              (exampleTransaction ''B'' ''2'', ''Hanteo Error: Partial success - some records failed'')])"
  by (simp add: sendSalesDataInBatches_def batchLoop.simps processBatch_def slice_def
      recordResponse_def recordFailure_def trackFailed_def List.map_filter_def emptyResults_def generateOpVal_def
      convertToHanteoFormat_def convertGender_def decimal
      hanteo_defs example_defs Let_def)

subsection \<open>The loop and the chunks\<close>

lemma processBatch_step:
  assumes "0 < c" and "i < length txs"
  shows "submitChunks cfg d (chunk c (drop i txs)) r w
     = (case processBatch cfg txs c d i r w of
          (r1, w1) \<Rightarrow> submitChunks cfg d (chunk c (drop (i + c) txs)) r1 w1)"
proof -
  from assms have ne: "drop i txs \<noteq> []" by simp
  have ch: "chunk c (drop i txs) = slice i (i + c) txs # chunk c (drop (i + c) txs)"
    using chunk_step[OF assms(1) ne] by (simp add: slice_def add.commute)
  have more: "chunk c (drop (i + c) txs) \<noteq> [] \<longleftrightarrow> i + c < length txs"
    using assms(1) by (auto simp: chunk_eq_Nil)
  show ?thesis
    unfolding ch processBatch_def Let_def
    by (simp add: more split: prod.splits sum.splits)
qed

lemma batchLoop_submitChunks:
  "0 < c \<Longrightarrow> batchLoop cfg txs c d i r w = Some (submitChunks cfg d (chunk c (drop i txs)) r w)"
proof (induction "length txs - i" arbitrary: i r w rule: less_induct)
  case less
  show ?case
  proof (cases "i < length txs")
    case False
    then show ?thesis by (subst batchLoop.simps) simp
  next
    case True
    obtain r1 w1 where p: "processBatch cfg txs c d i r w = (r1, w1)"
      by (cases "processBatch cfg txs c d i r w")
    from True less.prems have "length txs - (i + c) < length txs - i" by simp
    from less.hyps[OF this less.prems]
    have "batchLoop cfg txs c d (i + c) r1 w1
        = Some (submitChunks cfg d (chunk c (drop (i + c) txs)) r1 w1)" .
    with True p processBatch_step[OF less.prems True, of cfg d r w] show ?thesis
      by (subst batchLoop.simps) simp
  qed
qed

subsection \<open>What a run appends to the trace\<close>

lemma batchesStarted_append: "batchesStarted (es @ fs) = batchesStarted es @ batchesStarted fs"
  by (induction es rule: batchesStarted.induct) simp_all

lemma postToken_started: "batchesStarted (trace (snd (postToken w))) = batchesStarted (trace w)"
  by (simp add: postToken_def observe_def batchesStarted_append split: list.splits prod.splits)

lemma authenticate_started: "batchesStarted (trace (snd (authenticate w))) = batchesStarted (trace w)"
  by (simp add: authenticate_trace batchesStarted_append)

lemma ensureAuthenticated_started:
  "batchesStarted (trace (snd (ensureAuthenticated w))) = batchesStarted (trace w)"
  by (simp add: ensureAuthenticated_def authenticate_started)

lemma postSales_started: "batchesStarted (trace (snd (postSales sd w))) = batchesStarted (trace w)"
  by (simp add: postSales_def observe_def batchesStarted_append
      split: option.splits list.splits prod.splits)

lemma attemptLoop_started:
  assumes "\<And>w. batchesStarted (trace (snd (fn w))) = batchesStarted (trace w)"
  shows "batchesStarted (trace (snd (attemptLoop opts fn attempt w))) = batchesStarted (trace w)"
  using assms
proof (induction opts fn attempt w rule: attemptLoop.induct)
  case (1 opts fn attempt w)
  note fn = "1.prems"
  obtain r1 w1 where p: "fn w = (r1, w1)" by (cases "fn w")
  from fn[of w] p have w1: "batchesStarted (trace w1) = batchesStarted (trace w)" by simp
  show ?case
  proof (cases r1)
    case (Inr v)
    with p w1 show ?thesis by (simp add: attemptLoop.simps[of opts fn attempt w])
  next
    case (Inl e)
    show ?thesis
    proof (cases "attempt \<ge> maxRetries opts")
      case True
      with p Inl w1 show ?thesis by (simp add: attemptLoop.simps[of opts fn attempt w])
    next
      case False
      let ?w2 = "sleep Backoff (min (initialDelay opts * factor opts ^ attempt) (maxDelay opts)) w1"
      have "batchesStarted (trace ?w2) = batchesStarted (trace w1)"
        by (simp add: sleep_def batchesStarted_append)
      with "1.IH"[OF p[symmetric] Inl False fn] w1 p Inl False show ?thesis
        by (simp add: attemptLoop.simps[of opts fn attempt w])
    qed
  qed
qed

lemma submit_started: "batchesStarted (trace (snd (submit sd w))) = batchesStarted (trace w)"
proof -
  have "batchesStarted (trace (snd (attemptLoop salesRetryOptions (postSales sd) 0 w)))
      = batchesStarted (trace w)"
    by (rule attemptLoop_started) (rule postSales_started)
  then show ?thesis
    by (cases "attemptLoop salesRetryOptions (postSales sd) 0 w")
      (auto simp: submit_def retryWithBackoff_def split: sum.splits)
qed

lemma sendSalesData_started:
  "batchesStarted (trace (snd (sendSalesData cfg txs w))) = batchesStarted (trace w)"
proof (induction cfg txs w rule: sendSalesData.induct)
  case (1 cfg txs w)
  obtain r1 w1 where ea: "ensureAuthenticated w = (r1, w1)" by (cases "ensureAuthenticated w")
  with ensureAuthenticated_started[of w]
  have s1: "batchesStarted (trace w1) = batchesStarted (trace w)" by simp
  let ?sd = "map (convertToHanteoFormat cfg (dateNow w1)) txs"
  obtain r2 w2 where sb: "submit ?sd w1 = (r2, w2)" by (cases "submit ?sd w1")
  with submit_started[of ?sd w1] s1
  have s2: "batchesStarted (trace w2) = batchesStarted (trace w)" by simp
  obtain r3 w3 where au: "authenticate (w2\<lparr>token := None\<rparr>) = (r3, w3)"
    by (cases "authenticate (w2\<lparr>token := None\<rparr>)")
  with authenticate_started[of "w2\<lparr>token := None\<rparr>"] s2
  have s3: "batchesStarted (trace w3) = batchesStarted (trace w)" by simp
  show ?case
  proof (cases "\<exists>e. r1 = Inr () \<and> txs \<noteq> [] \<and> \<not> maxBatchSize < length txs \<and> r2 = Inl e
      \<and> tokenRejected e \<and> r3 = Inr ()")
    case True
    then obtain e where t: "r1 = Inr ()" "txs \<noteq> []" "\<not> maxBatchSize < length txs" "r2 = Inl e"
      "tokenRejected e" "r3 = Inr ()" by blast
    have "batchesStarted (trace (snd (sendSalesData cfg txs w3))) = batchesStarted (trace w3)"
      using "1.IH"[of r1 w1 "()" ?sd r2 w2 e r3 w3 "()"] ea sb au t by simp
    moreover have "sendSalesData cfg txs w = sendSalesData cfg txs w3"
      using ea sb au t by (subst sendSalesData.simps) (simp add: Let_def)
    ultimately show ?thesis using s3 by simp
  next
    case False
    then show ?thesis
      using ea sb au s1 s2 s3
      by (subst sendSalesData.simps) (auto simp: Let_def split: sum.splits)
  qed
qed

lemma submitChunks_started:
  "batchesStarted (trace (snd (submitChunks cfg d cs r w))) = batchesStarted (trace w) @ cs"
proof (induction cs arbitrary: r w)
  case Nil
  then show ?case by simp
next
  case (Cons b cs)
  let ?w0 = "observe (ProcessingBatch b) w"
  obtain r1 w1 where s: "sendSalesData cfg b ?w0 = (r1, w1)" by (cases "sendSalesData cfg b ?w0")
  with sendSalesData_started[of cfg b ?w0]
  have w1: "batchesStarted (trace w1) = batchesStarted (trace w) @ [b]"
    by (simp add: observe_def batchesStarted_append)
  show ?case
  proof (cases r1)
    case (Inl e)
    with s w1 Cons.IH[of "recordFailure b e r" "observe (BatchFailed (errorMessage e)) w1"]
    show ?thesis by (simp add: observe_def batchesStarted_append)
  next
    case (Inr response)
    with s w1 Cons.IH[of "recordResponse (dateNow w1) b response r"
        "if cs \<noteq> [] then sleep BatchDelay d w1 else w1"]
    show ?thesis by (simp add: sleep_def batchesStarted_append)
  qed
qed

subsection \<open>The outcomes of the chunks and the aggregate result\<close>

lemma chunkOutcomes_chunks: "map fst (chunkOutcomes cfg d cs w) = cs"
proof (induction cs arbitrary: w)
  case Nil
  then show ?case by simp
next
  case (Cons b cs)
  obtain r1 w1 where s: "sendSalesData cfg b (observe (ProcessingBatch b) w) = (r1, w1)"
    by (cases "sendSalesData cfg b (observe (ProcessingBatch b) w)")
  show ?case using s Cons.IH by (cases r1) simp_all
qed

lemma recordFailure_fields:
  "failedTransactions (recordFailure b e r) = failedTransactions r @ failedOf (b, Inl e, now)"
  "totalFailed (recordFailure b e r) = totalFailed r + failedCountOf (b, Inl e, now)"
  "batchResults (recordFailure b e r) = batchResults r @ responseOf (b, Inl e, now)"
  "totalSent (recordFailure b e r) = totalSent r + sentCountOf (b, Inl e, now)"
  "totalSuccess (recordFailure b e r) = totalSuccess r + successCountOf (b, Inl e, now)"
  by (simp_all add: recordFailure_def)

lemma recordResponse_fields:
  "failedTransactions (recordResponse now b response r)
     = failedTransactions r @ failedOf (b, Inr response, now)"
  "totalFailed (recordResponse now b response r) = totalFailed r + failedCountOf (b, Inr response, now)"
  "batchResults (recordResponse now b response r) = batchResults r @ responseOf (b, Inr response, now)"
  "totalSent (recordResponse now b response r) = totalSent r + sentCountOf (b, Inr response, now)"
  "totalSuccess (recordResponse now b response r)
     = totalSuccess r + successCountOf (b, Inr response, now)"
  by (simp_all add: recordResponse_def Let_def split: option.splits)

lemma submitChunks_outcomes:
  "failedTransactions (fst (submitChunks cfg d cs r w))
     = failedTransactions r @ concat (map failedOf (chunkOutcomes cfg d cs w))
   \<and> totalFailed (fst (submitChunks cfg d cs r w))
     = totalFailed r + sum_list (map failedCountOf (chunkOutcomes cfg d cs w))
   \<and> batchResults (fst (submitChunks cfg d cs r w))
     = batchResults r @ concat (map responseOf (chunkOutcomes cfg d cs w))
   \<and> totalSent (fst (submitChunks cfg d cs r w))
     = totalSent r + sum_list (map sentCountOf (chunkOutcomes cfg d cs w))
   \<and> totalSuccess (fst (submitChunks cfg d cs r w))
     = totalSuccess r + sum_list (map successCountOf (chunkOutcomes cfg d cs w))"
proof (induction cs arbitrary: r w)
  case Nil
  then show ?case by simp
next
  case (Cons b cs)
  obtain r1 w1 where s: "sendSalesData cfg b (observe (ProcessingBatch b) w) = (r1, w1)"
    by (cases "sendSalesData cfg b (observe (ProcessingBatch b) w)")
  show ?case
  proof (cases r1)
    case (Inl e)
    from Cons.IH[of "recordFailure b e r" "observe (BatchFailed (errorMessage e)) w1"] s Inl
    show ?thesis
      by (simp add: recordFailure_fields[of b e r "dateNow w1"] del: failedOf.simps
          failedCountOf.simps responseOf.simps sentCountOf.simps successCountOf.simps)
  next
    case (Inr response)
    from Cons.IH[of "recordResponse (dateNow w1) b response r"
        "if cs \<noteq> [] then sleep BatchDelay d w1 else w1"] s Inr
    show ?thesis
      by (simp add: recordResponse_fields del: failedOf.simps
          failedCountOf.simps responseOf.simps sentCountOf.simps successCountOf.simps)
  qed
qed

text \<open>With a batch size of zero and a transaction to send, the loop never returns.\<close>

lemma batchLoop_zero_never_returns:
  assumes "batchLoop cfg txs c d i r w = Some y"
  shows "\<not> (c = 0 \<and> i < length txs)"
proof (rule batchLoop.raw_induct
        [where P = "\<lambda>cfg txs c d i r w y. \<not> (c = 0 \<and> i < length txs)", OF _ assms], goal_cases)
  case (1 f cfg txs c d i r w y)
  show ?case
  proof
    assume z: "c = 0 \<and> i < length txs"
    with 1(2) obtain r1 w1 where "f cfg txs c d (i + c) r1 w1 = Some y"
      by (auto split: prod.splits)
    from 1(1)[OF this] z show False by simp
  qed
qed


lemma sendSalesDataInBatches_zero_never_returns:
  "txs \<noteq> [] \<Longrightarrow>
   sendSalesDataInBatches cfg txs \<lparr>batchSizeOption = Some 0, delayBetweenBatchesOption = delay\<rparr> w
     = None"
  using batchLoop_zero_never_returns[of cfg txs 0 _ 0 emptyResults w]
  by (cases "sendSalesDataInBatches cfg txs
        \<lparr>batchSizeOption = Some 0, delayBetweenBatchesOption = delay\<rparr> w")
    (auto simp: sendSalesDataInBatches_def)

subsection \<open>The chunks of a run\<close>

text \<open>
  For every list of \<open>n\<close> transactions and every chunk size \<open>c\<close> of at least one (100 when
  none is given), the run returns, and it has submitted the chunks of the list one after
  the other, in order: they are contiguous, there are \<open>\<lceil>n / c\<rceil>\<close> of them, and each has
  \<open>c\<close> transactions but the last, which has \<open>n mod c\<close> when \<open>c\<close> does not divide \<open>n\<close>.
\<close>

lemma sendSalesDataInBatches_chunks:
  assumes "0 < c"
  shows "sendSalesDataInBatches cfg txs \<lparr>batchSizeOption = Some c, delayBetweenBatchesOption = Some d\<rparr> w
      = Some (submitChunks cfg d (chunk c txs) emptyResults w)
    \<and> sendSalesDataInBatches cfg txs \<lparr>batchSizeOption = None, delayBetweenBatchesOption = None\<rparr> w
      = Some (submitChunks cfg 1000 (chunk 100 txs) emptyResults w)
    \<and> batchesStarted (trace (snd (submitChunks cfg d (chunk c txs) emptyResults w)))
      = batchesStarted (trace w) @ chunk c txs
    \<and> concat (chunk c txs) = txs
    \<and> length (chunk c txs) = (length txs + c - 1) div c
    \<and> (\<forall>k < length (chunk c txs).
          chunk c txs ! k = take c (drop (k * c) txs)
          \<and> length (chunk c txs ! k)
              = (if Suc k < length (chunk c txs) \<or> length txs mod c = 0 then c
                 else length txs mod c))"
proof (intro conjI allI impI)
  show "sendSalesDataInBatches cfg txs \<lparr>batchSizeOption = Some c, delayBetweenBatchesOption = Some d\<rparr> w
      = Some (submitChunks cfg d (chunk c txs) emptyResults w)"
    using batchLoop_submitChunks[OF assms, of cfg txs d 0 emptyResults w]
    by (simp add: sendSalesDataInBatches_def)
  show "sendSalesDataInBatches cfg txs \<lparr>batchSizeOption = None, delayBetweenBatchesOption = None\<rparr> w
      = Some (submitChunks cfg 1000 (chunk 100 txs) emptyResults w)"
    using batchLoop_submitChunks[of 100 cfg txs 1000 0 emptyResults w]
    by (simp add: sendSalesDataInBatches_def maxBatchSize_def)
  show "batchesStarted (trace (snd (submitChunks cfg d (chunk c txs) emptyResults w)))
      = batchesStarted (trace w) @ chunk c txs"
    by (rule submitChunks_started)
  show "concat (chunk c txs) = txs" using assms by (rule concat_chunk)
  show "length (chunk c txs) = (length txs + c - 1) div c" using assms by (rule length_chunk)
next
  fix k assume k: "k < length (chunk c txs)"
  show "chunk c txs ! k = take c (drop (k * c) txs)" using assms k by (rule nth_chunk)
  show "length (chunk c txs ! k)
      = (if Suc k < length (chunk c txs) \<or> length txs mod c = 0 then c else length txs mod c)"
    using assms k by (rule length_nth_chunk)
qed

lemma chunks_of_250_by_100:
  "length (chunk 100 (replicate 250 (exampleTransaction ''A'' ''1''))) = 3
   \<and> length (chunk 100 (replicate 250 (exampleTransaction ''A'' ''1'')) ! 0) = 100
   \<and> length (chunk 100 (replicate 250 (exampleTransaction ''A'' ''1'')) ! 1) = 100
   \<and> length (chunk 100 (replicate 250 (exampleTransaction ''A'' ''1'')) ! 2) = 50"
proof -
  let ?txs = "replicate 250 (exampleTransaction ''A'' ''1'')"
  have c: "(0 :: nat) < 100" by simp
  note t = sendSalesDataInBatches_chunks[OF c, of exampleConfig ?txs 10 outageWorld]
  from t have n: "length (chunk 100 ?txs) = 3" by simp
  from t have "\<forall>k < length (chunk 100 ?txs). length (chunk 100 ?txs ! k)
      = (if Suc k < length (chunk 100 ?txs) \<or> length ?txs mod 100 = 0 then 100
         else length ?txs mod 100)" by blast
  with n have "length (chunk 100 ?txs ! 0) = 100" "length (chunk 100 ?txs ! 1) = 100"
    "length (chunk 100 ?txs ! 2) = 50" by simp_all
  with n show ?thesis by simp
qed

lemmas batch_run_defs = sendSalesDataInBatches_def batchLoop.simps processBatch_def slice_def
  recordResponse_def recordFailure_def trackFailed_def List.map_filter_def emptyResults_def
  generateOpVal_def convertToHanteoFormat_def convertGender_def decimal

text \<open>
  Claim C4 (a defect of the code). The wait between batches stands inside the \<^verbatim>\<open>try\<close>
  block, after the submission: a batch whose submission throws is followed by the next
  batch at once. On \<open>outageWorld\<close> the first of two batches fails on a transport error,
  on \<open>partialThenAccepted\<close> it is posted and then fails with the partial-success error; in
  both runs the second batch starts with no delay between them, whereas on
  \<open>acceptingWorld\<close> the configured delay of 10 is observed.
\<close>

theorem sendSalesDataInBatches_no_delay_after_failed_batch:
  "map_option (\<lambda>(results, w). (batchesStarted (trace w), filter isBatchEvent (map outline (trace w))))
     (sendSalesDataInBatches exampleConfig twoTransactions batchesOfOne outageWorld)
   = Some ([[exampleTransaction ''A'' ''1''], [exampleTransaction ''B'' ''2'']],
           [ProcessingBatch [], BatchFailed ''Network Error'', ProcessingBatch []])
   \<and> map_option (\<lambda>(results, w). (batchesStarted (trace w), filter isBatchEvent (map outline (trace w))))
     (sendSalesDataInBatches exampleConfig twoTransactions batchesOfOne partialThenAccepted)
   = Some ([[exampleTransaction ''A'' ''1''], [exampleTransaction ''B'' ''2'']],
           [ProcessingBatch [],
            BatchFailed ''Hanteo Error: Partial success - some records failed'',
            ProcessingBatch []])
   \<and> map_option (\<lambda>(results, w). (batchesStarted (trace w), filter isBatchEvent (map outline (trace w))))
     (sendSalesDataInBatches exampleConfig twoTransactions batchesOfOne acceptingWorld)
   = Some ([[exampleTransaction ''A'' ''1''], [exampleTransaction ''B'' ''2'']],
           [ProcessingBatch [], BatchDelay 10, ProcessingBatch []])"
  by (simp add: batch_run_defs hanteo_defs example_defs partialThenAccepted_def acceptingWorld_def
      Let_def)


text \<open>
  Claim C5. Every chunked submission with a chunk size of at least one returns, whatever
  its chunks did, and its result is the sum of what each chunk contributes, chunk by chunk
  in the order of the list. A chunk whose submission threw contributes every one of its
  transactions with the message of that error to \<open>failedTransactions\<close> and its size to
  \<open>totalFailed\<close>, and nothing else; the chunks before and after it are all submitted and
  contribute what their own outcomes give.
\<close>

theorem failed_chunk_is_recorded_and_the_others_preserved:
  assumes "0 < c"
    and "c = (case batchSizeOption options of None \<Rightarrow> maxBatchSize | Some n \<Rightarrow> n)"
    and "d = (case delayBetweenBatchesOption options of None \<Rightarrow> 1000 | Some ms \<Rightarrow> ms)"
    and "outcomes = chunkOutcomes cfg d (chunk c txs) w"
  shows "\<exists>final w'.
      sendSalesDataInBatches cfg txs options w = Some (final, w')
      \<and> map fst outcomes = chunk c txs
      \<and> batchesStarted (trace w') = batchesStarted (trace w) @ chunk c txs
      \<and> failedTransactions final = concat (map failedOf outcomes)
      \<and> totalFailed final = sum_list (map failedCountOf outcomes)
      \<and> batchResults final = concat (map responseOf outcomes)
      \<and> totalSent final = sum_list (map sentCountOf outcomes)
      \<and> totalSuccess final = sum_list (map successCountOf outcomes)
      \<and> (\<forall>k < length outcomes. \<forall>error.
            fst (snd (outcomes ! k)) = Inl error \<longrightarrow>
              failedOf (outcomes ! k) = map (\<lambda>tx. (tx, errorMessage error)) (chunk c txs ! k)
              \<and> failedCountOf (outcomes ! k) = int (length (chunk c txs ! k))
              \<and> responseOf (outcomes ! k) = []
              \<and> sentCountOf (outcomes ! k) = 0
              \<and> successCountOf (outcomes ! k) = 0)"
proof -
  let ?run = "submitChunks cfg d (chunk c txs) emptyResults w"
  have ret: "sendSalesDataInBatches cfg txs options w = Some (fst ?run, snd ?run)"
    using batchLoop_submitChunks[OF assms(1), of cfg txs d 0 emptyResults w] assms(2,3)
    by (simp add: sendSalesDataInBatches_def)
  have chunks: "map fst outcomes = chunk c txs"
    unfolding assms(4) by (rule chunkOutcomes_chunks)
  have started: "batchesStarted (trace (snd ?run)) = batchesStarted (trace w) @ chunk c txs"
    by (rule submitChunks_started)
  have sums: "failedTransactions (fst ?run) = concat (map failedOf outcomes)"
    "totalFailed (fst ?run) = sum_list (map failedCountOf outcomes)"
    "batchResults (fst ?run) = concat (map responseOf outcomes)"
    "totalSent (fst ?run) = sum_list (map sentCountOf outcomes)"
    "totalSuccess (fst ?run) = sum_list (map successCountOf outcomes)"
    using submitChunks_outcomes[of cfg d "chunk c txs" emptyResults w]
    by (simp_all add: assms(4) emptyResults_def)
  have each: "\<forall>k < length outcomes. \<forall>error.
      fst (snd (outcomes ! k)) = Inl error \<longrightarrow>
        failedOf (outcomes ! k) = map (\<lambda>tx. (tx, errorMessage error)) (chunk c txs ! k)
        \<and> failedCountOf (outcomes ! k) = int (length (chunk c txs ! k))
        \<and> responseOf (outcomes ! k) = []
        \<and> sentCountOf (outcomes ! k) = 0
        \<and> successCountOf (outcomes ! k) = 0"
  proof (intro allI impI)
    fix k error
    assume k: "k < length outcomes" and e: "fst (snd (outcomes ! k)) = Inl error"
    obtain batch outcome now where o: "outcomes ! k = (batch, outcome, now)"
      by (cases "outcomes ! k")
    from chunks k have "fst (outcomes ! k) = chunk c txs ! k"
      by (metis length_map nth_map)
    with o e have "batch = chunk c txs ! k" "outcome = Inl error" by simp_all
    with o show "failedOf (outcomes ! k) = map (\<lambda>tx. (tx, errorMessage error)) (chunk c txs ! k)
        \<and> failedCountOf (outcomes ! k) = int (length (chunk c txs ! k))
        \<and> responseOf (outcomes ! k) = []
        \<and> sentCountOf (outcomes ! k) = 0
        \<and> successCountOf (outcomes ! k) = 0" by simp
  qed
  from ret chunks started sums each show ?thesis by blast
qed

lemma midOutage_outcomes:
  "map (\<lambda>(batch, outcome, now). (batch, outcome))
     (chunkOutcomes exampleConfig 10 (chunk 1 threeTransactions) midOutageWorld)
   = [([exampleTransaction ''A'' ''1''], Inr (accepted 1)),
      ([exampleTransaction ''B'' ''2''], Inl (Axios networkError)),
      ([exampleTransaction ''C'' ''3''], Inr (accepted 1))]"
  by (simp add: chunk.simps threeTransactions_def midOutageWorld_def batch_run_defs hanteo_defs
      example_defs Let_def)

theorem failed_chunk_is_recorded_and_the_others_preserved_witness:
  "(0 :: nat) < 1
   \<and> map_option (\<lambda>(results, w).
          (totalSent results, totalSuccess results, totalFailed results,
           failedTransactions results, batchResults results))
        (sendSalesDataInBatches exampleConfig threeTransactions batchesOfOne midOutageWorld)
       = Some (2, 2, 1, [(exampleTransaction ''B'' ''2'', ''Network Error'')],
               [accepted 1, accepted 1])"
proof -
  let ?outcomes = "chunkOutcomes exampleConfig 10 (chunk 1 threeTransactions) midOutageWorld"
  have c: "(0 :: nat) < 1" by simp
  have s: "(1 :: nat) = (case batchSizeOption batchesOfOne of None \<Rightarrow> maxBatchSize | Some n \<Rightarrow> n)"
    and d: "(10 :: nat)
      = (case delayBetweenBatchesOption batchesOfOne of None \<Rightarrow> 1000 | Some ms \<Rightarrow> ms)"
    by (simp_all add: batchesOfOne_def)
  from failed_chunk_is_recorded_and_the_others_preserved[OF c s d refl,
      of exampleConfig threeTransactions midOutageWorld]
  obtain final w' where
    run: "sendSalesDataInBatches exampleConfig threeTransactions batchesOfOne midOutageWorld
        = Some (final, w')"
    and sums: "failedTransactions final = concat (map failedOf ?outcomes)"
      "totalFailed final = sum_list (map failedCountOf ?outcomes)"
      "batchResults final = concat (map responseOf ?outcomes)"
      "totalSent final = sum_list (map sentCountOf ?outcomes)"
      "totalSuccess final = sum_list (map successCountOf ?outcomes)"
    by blast
  from midOutage_outcomes obtain n1 n2 n3 where
    o: "?outcomes
      = [([exampleTransaction ''A'' ''1''], Inr (accepted 1), n1),
         ([exampleTransaction ''B'' ''2''], Inl (Axios networkError), n2),
         ([exampleTransaction ''C'' ''3''], Inr (accepted 1), n3)]"
    by (auto simp: map_eq_Cons_conv)
  show ?thesis
    using run sums unfolding o by (simp add: accepted_def networkError_def)
qed

section \<open>Birth year\<close>

lemma isoDateOnly_example: "isoDateOnly ''1899-06-15'' = Some (1899, 6, 15)"
  by (simp add: isoDateOnly_def isDigit_def isDash_def parseInt_def digitValue_def
      daysInMonth_def)

lemma isoDateOnly_year: "isoDateOnly ''1899'' = Some (1899, 1, 1)"
  by (simp add: isoDateOnly_def isDigit_def parseInt_def digitValue_def)

lemma matchBirthYear_note: "matchBirthYear ''birthdate: 1899-06-15'' = None"
  by code_simp

lemma matchBirthDate_note: "matchBirthDate ''birthdate: 1899-06-15'' = Some ''1899-06-15''"
  by code_simp

lemma matchBirthYear_tags: "matchBirthYear ''vip, birth_year:0000'' = Some ''0000''"
  by code_simp

text \<open>
  Claim C8 (a defect of the code). A birth date that the \<^verbatim>\<open>Date\<close> constructor parses
  gives its year without any check of the range: whatever the engine, the time zone and
  the current year, \<open>1899-06-15\<close> yields 1899, and so does the bare \<open>1899\<close> east of
  Greenwich. From a customer's note the same year comes out, and from the tag pattern a
  year comes out as written.
\<close>

theorem extractBirthYear_before_1900:
  "extractBirthYear rt (Some ''1899-06-15'') = Some ''1899''
   \<and> extractBirthYear (rt\<lparr>timezoneOffset := 540\<rparr>) (Some ''1899'') = Some ''1899''
   \<and> extractBirthYearFromCustomer rt
        \<lparr>customerTags = None, customerNote = Some ''birthdate: 1899-06-15''\<rparr> = Some ''1899''
   \<and> extractBirthYearFromCustomer rt
        \<lparr>customerTags = Some ''vip, birth_year:0000'', customerNote = None\<rparr> = Some ''0000''"
proof (intro conjI)
  show a: "extractBirthYear rt (Some ''1899-06-15'') = Some ''1899''"
    by (simp add: extractBirthYear_def dateFullYear_def isoDateOnly_example decimal)
  show "extractBirthYear (rt\<lparr>timezoneOffset := 540\<rparr>) (Some ''1899'') = Some ''1899''"
    by (simp add: extractBirthYear_def dateFullYear_def isoDateOnly_year decimal)
  show "extractBirthYearFromCustomer rt
        \<lparr>customerTags = None, customerNote = Some ''birthdate: 1899-06-15''\<rparr> = Some ''1899''"
    using a by (simp add: extractBirthYearFromCustomer_def truthy_def matchBirthYear_note
        matchBirthDate_note del: matchBirthYear.simps matchBirthDate.simps)
  show "extractBirthYearFromCustomer rt
        \<lparr>customerTags = Some ''vip, birth_year:0000'', customerNote = None\<rparr> = Some ''0000''"
    by (simp add: extractBirthYearFromCustomer_def truthy_def matchBirthYear_tags
        del: matchBirthYear.simps)
qed

end

